theory Spec2Isabelle
  imports Main "HOL-Library.AList" "HOL-Library.Sublist"
begin

section \<open>JavaScript values used by the checkout code\<close>

text \<open>
  Strings are lists of characters. The two character classes of the regular
  expressions in \<^verbatim>\<open>p4-version.ts\<close> and \<^verbatim>\<open>p4-command-manager.ts\<close>:
  \<^verbatim>\<open>\d\<close> is an ASCII digit, \<^verbatim>\<open>\w\<close> is an ASCII letter, a digit or the underscore.
\<close>

definition isDigit :: "char \<Rightarrow> bool" where
  "isDigit c = (c \<in> set ''0123456789'')"

definition isWord :: "char \<Rightarrow> bool" where
  "isWord c = (c \<in> set ''abcdefghijklmnopqrstuvwxyzABCDEFGHIJKLMNOPQRSTUVWXYZ0123456789_'')"

text \<open>
  A JavaScript number is an IEEE double. The only numbers the version code ever builds
  are \<^verbatim>\<open>NaN\<close> (the initial value of both fields, and \<^verbatim>\<open>Number(undefined)\<close>) and
  \<^verbatim>\<open>Number\<close> of a captured group of digits, which is a natural number that a double
  represents, or \<^verbatim>\<open>Infinity\<close> when the digits exceed the range of the doubles.
\<close>

datatype number = NaN | Num nat | Infinity

text \<open>The natural number that a group of digits writes in base ten.\<close>

definition decimal :: "string \<Rightarrow> nat" where
  "decimal ds = foldl (\<lambda>acc c. 10 * acc + (of_char c - 48)) 0 ds"

text \<open>The number of binary digits of a natural number.\<close>

fun bit_length :: "nat \<Rightarrow> nat" where
  "bit_length n = (if n = 0 then 0 else Suc (bit_length (n div 2)))"

declare bit_length.simps [simp del]

text \<open>
  The double nearest to a natural number. A double has 53 significant binary digits:
  a number below \<open>2^53\<close> is represented as it is. A larger number of \<open>53 + e\<close> binary
  digits is rounded to a multiple of \<open>2^e\<close>, to the nearer one, and to the one with the
  even quotient when it lies halfway between two. A result of \<open>2^1024\<close> or more is
  \<^verbatim>\<open>Infinity\<close>.
\<close>

definition toDouble :: "nat \<Rightarrow> number" where
  "toDouble n =
     (if n < 2 ^ 53 then Num n
      else (let e = bit_length n - 53;
                q = n div 2 ^ e;
                r = n mod 2 ^ e;
                rounded = (if 2 ^ (e - 1) < r \<or> (r = 2 ^ (e - 1) \<and> q mod 2 = 1) then q + 1 else q)
            in if 2 ^ 1024 \<le> rounded * 2 ^ e then Infinity else Num (rounded * 2 ^ e)))"

text \<open>\<^verbatim>\<open>Number(x)\<close> for \<open>x\<close> a captured \<^verbatim>\<open>(\d+)\<close> group, \<open>None\<close> when the group did not take part.\<close>

definition Number :: "string option \<Rightarrow> number" where
  "Number x = (case x of None \<Rightarrow> NaN | Some ds \<Rightarrow> toDouble (decimal ds))"

text \<open>
  The comparisons \<^verbatim>\<open><\<close>, \<^verbatim>\<open>===\<close> and \<^verbatim>\<open>>=\<close> of JavaScript: false as soon as one side is
  \<open>NaN\<close>; \<^verbatim>\<open>Infinity\<close> is equal to itself and greater than every other number.
\<close>

fun js_lt :: "number \<Rightarrow> number \<Rightarrow> bool" where
  "js_lt (Num a) (Num b) = (a < b)"
| "js_lt (Num a) Infinity = True"
| "js_lt _ _ = False"

fun js_eq :: "number \<Rightarrow> number \<Rightarrow> bool" where
  "js_eq (Num a) (Num b) = (a = b)"
| "js_eq Infinity Infinity = True"
| "js_eq _ _ = False"

fun js_ge :: "number \<Rightarrow> number \<Rightarrow> bool" where
  "js_ge (Num a) (Num b) = (b \<le> a)"
| "js_ge Infinity (Num b) = True"
| "js_ge Infinity Infinity = True"
| "js_ge _ _ = False"

text \<open>
  What the code throws. \<open>Error m\<close> is \<^verbatim>\<open>throw new Error(m)\<close>, \<open>ThrownString m\<close> is
  \<^verbatim>\<open>throw m\<close> for a string, \<open>TypeError\<close> is a method called on \<^verbatim>\<open>undefined\<close>,
  \<open>SyntaxError\<close> is what \<^verbatim>\<open>JSON.parse\<close> throws, and \<open>ExecError args code\<close> is what
  \<^verbatim>\<open>exec.exec\<close> throws for a non-zero exit code.
\<close>

datatype error =
    Error string
  | ThrownString string
  | TypeError
  | SyntaxError
  | ExecError "string list" int

section \<open>\<^verbatim>\<open>PerforceVersion\<close> (p4-version.ts)\<close>

record PerforceVersion =
  major :: number
  minor :: number

text \<open>
  \<^verbatim>\<open>version.match(/^(\d+)\.(\d+)?$/)\<close>: the two captured groups, the second \<open>None\<close> when
  it did not take part. \<^verbatim>\<open>\d+\<close> is greedy and the dot is no digit, so the first group is
  the longest run of digits at the start.
\<close>

definition version_match :: "string \<Rightarrow> (string \<times> string option) option" where
  "version_match s =
     (let d1 = takeWhile isDigit s; r = dropWhile isDigit s in
      if d1 = [] then None
      else (case r of
              [] \<Rightarrow> None
            | c # d2 \<Rightarrow>
                if c \<noteq> CHR ''.'' then None
                else if d2 = [] then Some (d1, None)
                else if list_all isDigit d2 then Some (d1, Some d2)
                else None))"

text \<open>The constructor; \<open>None\<close> is the absent argument, and the empty string is falsy.\<close>

definition newPerforceVersion :: "string option \<Rightarrow> PerforceVersion" where
  "newPerforceVersion version =
     (case version of
        None \<Rightarrow> \<lparr>major = NaN, minor = NaN\<rparr>
      | Some v \<Rightarrow>
          if v = [] then \<lparr>major = NaN, minor = NaN\<rparr>
          else (case version_match v of
                  None \<Rightarrow> \<lparr>major = NaN, minor = NaN\<rparr>
                | Some (m1, m2) \<Rightarrow> \<lparr>major = Number (Some m1), minor = Number m2\<rparr>))"

definition isValid :: "PerforceVersion \<Rightarrow> bool" where
  "isValid v = (major v \<noteq> NaN)"

definition checkMinimum :: "PerforceVersion \<Rightarrow> PerforceVersion \<Rightarrow> error + bool" where
  "checkMinimum this minimum =
     (if \<not> isValid minimum then Inl (Error ''Arg minimum is not a valid version'')
      else if js_lt (major this) (major minimum) then Inr False
      else if js_eq (major this) (major minimum) \<and> js_lt (minor this) (minor minimum)
        then Inr False
      else Inr True)"

section \<open>Strings: \<^verbatim>\<open>split\<close>, \<^verbatim>\<open>join\<close>, \<^verbatim>\<open>startsWith\<close>, \<^verbatim>\<open>replace\<close>\<close>

text \<open>\<^verbatim>\<open>s.split(sep)\<close> for a separator of one character: every occurrence cuts, parts may be empty.\<close>

fun js_split :: "char \<Rightarrow> string \<Rightarrow> string list" where
  "js_split sep [] = [[]]"
| "js_split sep (c # cs) =
     (if c = sep then [] # js_split sep cs
      else (case js_split sep cs of p # ps \<Rightarrow> (c # p) # ps | [] \<Rightarrow> [[c]]))"

fun join :: "string \<Rightarrow> string list \<Rightarrow> string" where
  "join sep [] = []"
| "join sep [x] = x"
| "join sep (x # y # ys) = x @ sep @ join sep (y # ys)"

definition startsWith :: "string \<Rightarrow> string \<Rightarrow> bool" where
  "startsWith s p = prefix p s"

text \<open>
  \<^verbatim>\<open>s.replace(pat, rep)\<close> with a string pattern replaces the first occurrence only.
  \<open>find_first\<close> gives what stands before and after that occurrence; \<open>getSubstitution\<close>
  expands the dollar patterns of the replacement string (\<^verbatim>\<open>$$\<close>, \<^verbatim>\<open>$&\<close>, the text
  before and after the match); with a string pattern there are no captured groups, so a
  dollar before any other character stands for itself.
\<close>

fun find_first :: "string \<Rightarrow> string \<Rightarrow> (string \<times> string) option" where
  "find_first pat [] = (if pat = [] then Some ([], []) else None)"
| "find_first pat (c # cs) =
     (if prefix pat (c # cs) then Some ([], drop (length pat) (c # cs))
      else (case find_first pat cs of
              None \<Rightarrow> None
            | Some (pre, post) \<Rightarrow> Some (c # pre, post)))"

fun getSubstitution :: "string \<Rightarrow> string \<Rightarrow> string \<Rightarrow> string \<Rightarrow> string" where
  "getSubstitution matched pre post [] = []"
| "getSubstitution matched pre post [c] = [c]"
| "getSubstitution matched pre post (c # d # rest) =
     (if c = CHR ''$'' then
        (if d = CHR ''$'' then CHR ''$'' # getSubstitution matched pre post rest
         else if d = CHR ''&'' then matched @ getSubstitution matched pre post rest
         else if d = CHR 0x60 then pre @ getSubstitution matched pre post rest
         else if d = CHR 0x27 then post @ getSubstitution matched pre post rest
         else c # getSubstitution matched pre post (d # rest))
      else c # getSubstitution matched pre post (d # rest))"

definition js_replace :: "string \<Rightarrow> string \<Rightarrow> string \<Rightarrow> string" where
  "js_replace s pat rep =
     (case find_first pat s of
        None \<Rightarrow> s
      | Some (pre, post) \<Rightarrow> pre @ getSubstitution pat pre post rep @ post)"

text \<open>A template literal prints an undefined value as the word.\<close>

definition str :: "string option \<Rightarrow> string" where
  "str x = (case x of None \<Rightarrow> ''undefined'' | Some s \<Rightarrow> s)"

section \<open>The command execution port and the observable actions\<close>

text \<open>
  Everything outside the code is a \<open>world\<close>: the host name (\<^verbatim>\<open>os.hostname()\<close>), the answers
  of the two \<^verbatim>\<open>fs-helper\<close> tests on a path (\<open>directoryExistsSync\<close> is asked after the
  conflicting file, if any, was removed), what \<^verbatim>\<open>p4.exe\<close> answers to an argument list and
  a piped input, and \<^verbatim>\<open>JSON.parse\<close> (\<open>None\<close> when it throws; otherwise the flat object as
  its keys, each once, and their string values, in the order of \<^verbatim>\<open>Object.keys\<close>). The port answers a
  query the same way each time: within one run every query is made before the first
  write.

  A run is the list of the actions it performed, in order, and how it ended. Logging
  (\<^verbatim>\<open>core.info\<close>, \<^verbatim>\<open>core.warning\<close>, \<^verbatim>\<open>console.log\<close>, groups) is not an action.
  \<^verbatim>\<open>io.rmRF\<close> and \<^verbatim>\<open>io.mkdirP\<close> are taken to succeed, and so is the test of the working
  directory that \<^verbatim>\<open>execP4\<close> makes before each command (the directory was just created).
\<close>

record PerforceOutput =
  stdout :: string
  exitCode :: int

record world =
  hostname :: string
  fileExistsSync :: "string \<Rightarrow> bool"
  directoryExistsSync :: "string \<Rightarrow> bool"
  exec :: "string list \<Rightarrow> string \<Rightarrow> PerforceOutput"
  JSON_parse :: "string \<Rightarrow> (string \<times> string) list option"

datatype action =
    RmRF string
  | MkdirP string
  | Exec "string list" string
  | SetEnvironmentVariable string string
  | SetOutput string string

type_synonym 'a io = "action list \<times> (error + 'a)"

definition ret :: "'a \<Rightarrow> 'a io" where
  "ret x = ([], Inr x)"

definition throw :: "error \<Rightarrow> 'a io" where
  "throw e = ([], Inl e)"

definition act :: "action \<Rightarrow> unit io" where
  "act a = ([a], Inr ())"

definition bind :: "'a io \<Rightarrow> ('a \<Rightarrow> 'b io) \<Rightarrow> 'b io" where
  "bind m f =
     (case snd m of
        Inl e \<Rightarrow> (fst m, Inl e)
      | Inr x \<Rightarrow> (fst m @ fst (f x), snd (f x)))"

text \<open>\<^verbatim>\<open>try { m } catch { throw e }\<close>\<close>

definition catch_throw :: "'a io \<Rightarrow> error \<Rightarrow> 'a io" where
  "catch_throw m e = (case snd m of Inl _ \<Rightarrow> (fst m, Inl e) | Inr x \<Rightarrow> m)"

definition trace :: "'a io \<Rightarrow> action list" where
  "trace m = fst m"

definition outcome :: "'a io \<Rightarrow> error + 'a" where
  "outcome m = snd m"

section \<open>\<^verbatim>\<open>PerforceCommandManager\<close> (p4-command-manager.ts)\<close>

record PerforceMapping =
  depot :: string
  client :: string

text \<open>
  \<^verbatim>\<open>PerforceClient\<close>. The field the source calls \<^verbatim>\<open>client\<close> is \<open>name\<close> here (the mapping
  has a field \<^verbatim>\<open>client\<close> too). A field read from a key the object lacks is
  \<^verbatim>\<open>undefined\<close>, here \<open>None\<close>.
\<close>

record PerforceClient =
  host :: "string option"
  name :: "string option"
  description :: "string option"
  options :: "string option"
  submitOptions :: "string option"
  lineEnd :: "string option"
  owner :: "string option"
  root :: "string option"
  view :: "PerforceMapping list"

definition execP4 :: "world \<Rightarrow> string list \<Rightarrow> string \<Rightarrow> PerforceOutput io" where
  "execP4 w args input =
     bind (act (Exec args input)) (\<lambda>_.
       let result = exec w args input in
       if exitCode result \<noteq> 0 then throw (ExecError args (exitCode result))
       else ret result)"

text \<open>
  The search of \<^verbatim>\<open>/Rev. P4\/\w+\/(\d+\.\d+)\/\d+ /\<close> in the output of \<^verbatim>\<open>p4 -V\<close>.
  \<open>version_at\<close> matches at the start of its argument and gives the captured group; the
  dot after \<^verbatim>\<open>Rev\<close> is any character but a line terminator. Every greedy run is followed
  by a character outside its class, so no shorter run can match. \<open>version_search\<close> is the
  leftmost match.
\<close>

definition strip_prefix :: "string \<Rightarrow> string \<Rightarrow> string option" where
  "strip_prefix p s = (if prefix p s then Some (drop (length p) s) else None)"

definition version_at :: "string \<Rightarrow> string option" where
  "version_at s =
     (case strip_prefix ''Rev'' s of None \<Rightarrow> None | Some s1 \<Rightarrow>
     (case s1 of [] \<Rightarrow> None | c # s2 \<Rightarrow>
        if c = CHR 0x0A \<or> c = CHR 0x0D then None else
     (case strip_prefix '' P4/'' s2 of None \<Rightarrow> None | Some s3 \<Rightarrow>
        if takeWhile isWord s3 = [] then None else
     (case strip_prefix ''/'' (dropWhile isWord s3) of None \<Rightarrow> None | Some s4 \<Rightarrow>
        if takeWhile isDigit s4 = [] then None else
     (case strip_prefix ''.'' (dropWhile isDigit s4) of None \<Rightarrow> None | Some s5 \<Rightarrow>
        if takeWhile isDigit s5 = [] then None else
     (case strip_prefix ''/'' (dropWhile isDigit s5) of None \<Rightarrow> None | Some s6 \<Rightarrow>
        if takeWhile isDigit s6 = [] then None else
     (case strip_prefix '' '' (dropWhile isDigit s6) of None \<Rightarrow> None | Some _ \<Rightarrow>
        Some (takeWhile isDigit s4 @ ''.'' @ takeWhile isDigit s5))))))))"

fun version_search :: "string \<Rightarrow> string option" where
  "version_search [] = None"
| "version_search (c # cs) =
     (case version_at (c # cs) of Some v \<Rightarrow> Some v | None \<Rightarrow> version_search cs)"

definition initializeCommandManager :: "world \<Rightarrow> PerforceVersion io" where
  "initializeCommandManager w =
     bind (execP4 w [''-V''] []) (\<lambda>p4Output.
       let perforceVersion =
             (case version_search (stdout p4Output) of
                Some m \<Rightarrow> newPerforceVersion (Some m)
              | None \<Rightarrow> newPerforceVersion None) in
       if \<not> isValid perforceVersion then throw (Error ''Unable to determine p4 version'')
       else ret perforceVersion)"

definition verifyLogin :: "world \<Rightarrow> unit io" where
  "verifyLogin w = bind (execP4 w [''login'', ''-s''] []) (\<lambda>_. ret ())"

text \<open>The loop of \<^verbatim>\<open>client\<close> over the keys of the parsed object.\<close>

fun viewMappings :: "(string \<times> string) list \<Rightarrow> error + PerforceMapping list" where
  "viewMappings [] = Inr []"
| "viewMappings ((key, v) # rest) =
     (if startsWith key ''View'' then
        (let parts = js_split CHR '' '' v in
         if length parts \<noteq> 2 then Inl (Error (''Invalid client view '' @ [CHR 0x27] @ v @ [CHR 0x27]))
         else (case viewMappings rest of
                 Inl e \<Rightarrow> Inl e
               | Inr mappings \<Rightarrow> Inr (\<lparr>depot = parts ! 0, client = parts ! 1\<rparr> # mappings)))
      else viewMappings rest)"

text \<open>\<^verbatim>\<open>PerforceCommandManager.client\<close>\<close>

definition fetchClient :: "world \<Rightarrow> string \<Rightarrow> PerforceClient io" where
  "fetchClient w nm =
     bind (execP4 w [''-Mj'', ''-Ztag'', ''client'', ''-o'', nm] []) (\<lambda>output.
       case JSON_parse w (stdout output) of
         None \<Rightarrow> throw SyntaxError
       | Some obj \<Rightarrow>
           (case viewMappings obj of
              Inl e \<Rightarrow> throw e
            | Inr mappings \<Rightarrow>
                ret \<lparr>host = map_of obj ''Host'',
                     name = map_of obj ''Client'',
                     description = map_of obj ''Description'',
                     options = map_of obj ''Options'',
                     submitOptions = map_of obj ''SubmitOptions'',
                     lineEnd = map_of obj ''LineEnd'',
                     owner = map_of obj ''Owner'',
                     root = map_of obj ''Root'',
                     view = mappings\<rparr>))"

text \<open>The lines of the spec that \<^verbatim>\<open>editClient\<close> pipes into \<^verbatim>\<open>p4 client -i\<close>.\<close>

definition clientSpec :: "PerforceClient \<Rightarrow> error + string list" where
  "clientSpec c =
     (case description c of
        None \<Rightarrow> Inl TypeError
      | Some d \<Rightarrow>
          Inr ([''Client:'' @ [CHR 0x09] @ str (name c),
                ''Owner:'' @ [CHR 0x09] @ str (owner c),
                ''Host:'' @ [CHR 0x09] @ str (host c),
                ''Description:'']
               @ map (\<lambda>line. CHR 0x09 # line) (js_split CHR 0x0A d)
               @ [''Root:'' @ [CHR 0x09] @ str (root c),
                  ''Options:'' @ [CHR 0x09] @ str (options c),
                  ''SubmitOptions:'' @ [CHR 0x09] @ str (submitOptions c),
                  ''LineEnd:'' @ [CHR 0x09] @ str (lineEnd c),
                  ''View:'']
               @ map (\<lambda>mapping. CHR 0x09 # depot mapping @ '' '' @ client mapping) (view c)))"

definition editClient :: "world \<Rightarrow> PerforceClient \<Rightarrow> unit io" where
  "editClient w c =
     (case clientSpec c of
        Inl e \<Rightarrow> throw e
      | Inr spec \<Rightarrow> bind (execP4 w [''client'', ''-i''] (join [CHR 0x0A] spec)) (\<lambda>_. ret ()))"

definition clientExists :: "world \<Rightarrow> string \<Rightarrow> bool io" where
  "clientExists w nm =
     bind (execP4 w [''clients'', ''-e'', nm] []) (\<lambda>output. ret (stdout output \<noteq> []))"

definition sync :: "world \<Rightarrow> string \<Rightarrow> unit io" where
  "sync w spec = bind (execP4 w [''sync'', spec] []) (\<lambda>_. ret ())"

definition syncK :: "world \<Rightarrow> string \<Rightarrow> unit io" where
  "syncK w spec = bind (execP4 w [''sync'', ''-k'', spec] []) (\<lambda>_. ret ())"

definition revert :: "world \<Rightarrow> string \<Rightarrow> unit io" where
  "revert w spec = bind (execP4 w [''clean'', ''-a'', ''-d'', ''-e'', spec] []) (\<lambda>_. ret ())"

section \<open>\<^verbatim>\<open>getSource\<close> (the Perforce source provider)\<close>

text \<open>The fields of \<^verbatim>\<open>IPerforceSourceSettings\<close> that \<^verbatim>\<open>getSource\<close> reads.\<close>

record IPerforceSourceSettings =
  repositoryName :: string
  repositoryPath :: string
  ref :: string
  authToken :: string
  clientTemplate :: string
  useClientTemplate :: bool

definition clientName :: "IPerforceSourceSettings \<Rightarrow> world \<Rightarrow> string" where
  "clientName settings w =
     (if useClientTemplate settings then clientTemplate settings
      else clientTemplate settings @ ''_'' @ js_replace (hostname w) ''-'' ''_'')"

text \<open>\<^verbatim>\<open>mapping.client.replace(`//${settings.clientTemplate}/`, `//${clientName}/`)\<close>\<close>

definition namespaced :: "IPerforceSourceSettings \<Rightarrow> string \<Rightarrow> string \<Rightarrow> string" where
  "namespaced settings cn path =
     js_replace path (''//'' @ clientTemplate settings @ ''/'') (''//'' @ cn @ ''/'')"

text \<open>
  The \<^verbatim>\<open>Map\<close> of the template's mappings is an association list: \<^verbatim>\<open>set\<close> replaces
  the value of a key in place or appends, \<^verbatim>\<open>delete\<close> removes the key.
\<close>

definition templateMappings ::
  "IPerforceSourceSettings \<Rightarrow> string \<Rightarrow> PerforceMapping list \<Rightarrow> (string \<times> string) list" where
  "templateMappings settings cn vw =
     foldl (\<lambda>tm mapping. AList.update (depot mapping) (namespaced settings cn (client mapping)) tm)
       [] vw"

text \<open>
  The loop over the existing view: the flag so far, and the \<^verbatim>\<open>Map\<close>, from which the
  depot path of every mapping seen is deleted.
\<close>

fun checkMappings ::
  "(string \<times> string) list \<Rightarrow> PerforceMapping list \<Rightarrow> bool \<Rightarrow> bool \<times> (string \<times> string) list" where
  "checkMappings tm [] rebuild = (rebuild, tm)"
| "checkMappings tm (mapping # rest) rebuild =
     checkMappings (AList.delete (depot mapping) tm) rest
       (if map_of tm (depot mapping) = None then True
        else if map_of tm (depot mapping) \<noteq> Some (client mapping) then True
        else rebuild)"

text \<open>The value of \<^verbatim>\<open>rebuildClient\<close> when the code reaches \<^verbatim>\<open>if (rebuildClient)\<close>.\<close>

definition rebuildClient ::
  "IPerforceSourceSettings \<Rightarrow> world \<Rightarrow> PerforceClient \<Rightarrow> PerforceClient \<Rightarrow> bool" where
  "rebuildClient settings w template existingClient =
     (let checked = checkMappings
            (templateMappings settings (clientName settings w) (view template))
            (view existingClient) False in
      fst checked \<or> snd checked \<noteq> []
      \<or> host existingClient \<noteq> Some (hostname w)
      \<or> root existingClient \<noteq> Some (repositoryPath settings))"

text \<open>The view both branches build from the template.\<close>

definition templateView ::
  "IPerforceSourceSettings \<Rightarrow> world \<Rightarrow> PerforceClient \<Rightarrow> PerforceMapping list" where
  "templateView settings w template =
     map (\<lambda>mapping. \<lparr>depot = depot mapping,
                      client = namespaced settings (clientName settings w) (client mapping)\<rparr>)
       (view template)"

definition ownerMismatch :: "PerforceClient \<Rightarrow> string \<Rightarrow> bool" where
  "ownerMismatch existingClient p4User =
     (case owner existingClient of
        None \<Rightarrow> False
      | Some ow \<Rightarrow> ow \<noteq> [] \<and> ow \<noteq> p4User)"

text \<open>
  The branch of an existing client, from the fetch of its definition on; its value is
  \<^verbatim>\<open>needSyncNone\<close>.
\<close>

definition existingBranch ::
  "IPerforceSourceSettings \<Rightarrow> world \<Rightarrow> PerforceClient \<Rightarrow> bool io" where
  "existingBranch settings w template =
     bind (fetchClient w (clientName settings w)) (\<lambda>existingClient.
       if ownerMismatch existingClient (authToken settings)
       then throw (Error (''Client owner does not match, aborting. ''
              @ str (owner existingClient) @ '' != '' @ authToken settings))
       else if rebuildClient settings w template existingClient
       then bind (editClient w
                    (existingClient\<lparr>host := Some (hostname w),
                                    root := Some (repositoryPath settings),
                                    view := templateView settings w template\<rparr>))
              (\<lambda>_. ret True)
       else ret False)"

text \<open>The branch of a new client.\<close>

definition newBranch ::
  "IPerforceSourceSettings \<Rightarrow> world \<Rightarrow> PerforceClient \<Rightarrow> bool io" where
  "newBranch settings w template =
     bind (fetchClient w (clientTemplate settings)) (\<lambda>newClient.
       bind (editClient w
               (newClient\<lparr>name := Some (clientName settings w),
                          description := Some (''Build template instance for '' @ hostname w),
                          host := Some (hostname w),
                          root := Some (repositoryPath settings),
                          view := templateView settings w template\<rparr>))
         (\<lambda>_. ret False))"

definition getPerforceCommandManager :: "IPerforceSourceSettings \<Rightarrow> world \<Rightarrow> PerforceVersion io" where
  "getPerforceCommandManager settings w = initializeCommandManager w"

definition getSource :: "IPerforceSourceSettings \<Rightarrow> world \<Rightarrow> unit io" where
  "getSource settings w =
     bind (if fileExistsSync w (repositoryPath settings)
           then act (RmRF (repositoryPath settings)) else ret ()) (\<lambda>_.
     bind (if \<not> directoryExistsSync w (repositoryPath settings)
           then act (MkdirP (repositoryPath settings)) else ret ()) (\<lambda>_.
     bind (getPerforceCommandManager settings w) (\<lambda>p4.
     bind (act (SetEnvironmentVariable ''P4PORT'' (repositoryName settings))) (\<lambda>_.
     bind (act (SetEnvironmentVariable ''P4USER'' (authToken settings))) (\<lambda>_.
     bind (catch_throw (verifyLogin w)
             (ThrownString ''Workflow must login to perforce before running checkout'')) (\<lambda>_.
     bind (fetchClient w (clientTemplate settings)) (\<lambda>template.
     bind (clientExists w (clientName settings w)) (\<lambda>found.
     bind (if found then existingBranch settings w template
           else newBranch settings w template) (\<lambda>needSyncNone.
     bind (act (SetEnvironmentVariable ''P4CLIENT'' (clientName settings w))) (\<lambda>_.
     bind (if needSyncNone
           then bind (syncK w (''//'' @ clientName settings w @ ''/...#none'')) (\<lambda>_.
                bind (act (RmRF (repositoryPath settings))) (\<lambda>_.
                act (MkdirP (repositoryPath settings))))
           else ret ()) (\<lambda>_.
     bind (revert w (''//'' @ clientName settings w @ ''/...'')) (\<lambda>_.
     bind (sync w (''//'' @ clientName settings w @ ''/...'' @ ref settings)) (\<lambda>_.
     act (SetOutput ''commit'' (ref settings)))))))))))))))"

section \<open>The phases of \<^verbatim>\<open>getSource\<close>, named for the statements\<close>

text \<open>The directory preparation at the start of \<^verbatim>\<open>getSource\<close>: what it does to the file system.\<close>

definition preflight :: "IPerforceSourceSettings \<Rightarrow> world \<Rightarrow> action list" where
  "preflight settings w =
     (if fileExistsSync w (repositoryPath settings) then [RmRF (repositoryPath settings)] else [])
     @ (if \<not> directoryExistsSync w (repositoryPath settings)
        then [MkdirP (repositoryPath settings)] else [])"

text \<open>
  The commands up to the fetch of an existing definition: version, environment, login,
  template, existence, existing definition. None of them writes.
\<close>

definition queries :: "IPerforceSourceSettings \<Rightarrow> world \<Rightarrow> action list" where
  "queries settings w =
     [Exec [''-V''] [],
      SetEnvironmentVariable ''P4PORT'' (repositoryName settings),
      SetEnvironmentVariable ''P4USER'' (authToken settings),
      Exec [''login'', ''-s''] [],
      Exec [''-Mj'', ''-Ztag'', ''client'', ''-o'', clientTemplate settings] [],
      Exec [''clients'', ''-e'', clientName settings w] [],
      Exec [''-Mj'', ''-Ztag'', ''client'', ''-o'', clientName settings w] []]"

text \<open>
  The run gets as far as an existing definition: the version was determined, the login
  verified, the template fetched, a client of the resolved name found and its
  definition fetched.
\<close>

definition reaches_existing ::
  "IPerforceSourceSettings \<Rightarrow> world \<Rightarrow> PerforceClient \<Rightarrow> PerforceClient \<Rightarrow> bool" where
  "reaches_existing settings w template existingClient =
     (\<not> isl (outcome (getPerforceCommandManager settings w))
      \<and> outcome (verifyLogin w) = Inr ()
      \<and> outcome (fetchClient w (clientTemplate settings)) = Inr template
      \<and> outcome (clientExists w (clientName settings w)) = Inr True
      \<and> outcome (fetchClient w (clientName settings w)) = Inr existingClient)"

text \<open>What \<^verbatim>\<open>getSource\<close> does with the fetched existing definition (the rest of its branch).\<close>

definition checkExisting ::
  "IPerforceSourceSettings \<Rightarrow> world \<Rightarrow> PerforceClient \<Rightarrow> PerforceClient \<Rightarrow> bool io" where
  "checkExisting settings w template existingClient =
     (if ownerMismatch existingClient (authToken settings)
       then throw (Error (''Client owner does not match, aborting. ''
              @ str (owner existingClient) @ '' != '' @ authToken settings))
       else if rebuildClient settings w template existingClient
       then bind (editClient w
                    (existingClient\<lparr>host := Some (hostname w),
                                    root := Some (repositoryPath settings),
                                    view := templateView settings w template\<rparr>))
              (\<lambda>_. ret True)
       else ret False)"

text \<open>The definition a rebuild writes back.\<close>

definition rebuilt ::
  "IPerforceSourceSettings \<Rightarrow> world \<Rightarrow> PerforceClient \<Rightarrow> PerforceClient \<Rightarrow> PerforceClient" where
  "rebuilt settings w template existingClient =
     existingClient\<lparr>host := Some (hostname w),
                    root := Some (repositoryPath settings),
                    view := templateView settings w template\<rparr>"

text \<open>The last three steps of \<^verbatim>\<open>getSource\<close>: restore, sync to the ref, emit the output.\<close>

definition checkout :: "IPerforceSourceSettings \<Rightarrow> world \<Rightarrow> unit io" where
  "checkout settings w =
     bind (revert w (''//'' @ clientName settings w @ ''/...'')) (\<lambda>_.
     bind (sync w (''//'' @ clientName settings w @ ''/...'' @ ref settings)) (\<lambda>_.
     act (SetOutput ''commit'' (ref settings))))"

text \<open>\<^verbatim>\<open>getSource\<close> from the activation of the client on.\<close>

definition finish :: "IPerforceSourceSettings \<Rightarrow> world \<Rightarrow> bool \<Rightarrow> unit io" where
  "finish settings w needSyncNone =
     bind (act (SetEnvironmentVariable ''P4CLIENT'' (clientName settings w))) (\<lambda>_.
     bind (if needSyncNone
           then bind (syncK w (''//'' @ clientName settings w @ ''/...#none'')) (\<lambda>_.
                bind (act (RmRF (repositoryPath settings))) (\<lambda>_.
                act (MkdirP (repositoryPath settings))))
           else ret ()) (\<lambda>_.
     checkout settings w))"

text \<open>\<^verbatim>\<open>getSource\<close> up to the activation of the client; its value is \<^verbatim>\<open>needSyncNone\<close>.\<close>

definition reconcile :: "IPerforceSourceSettings \<Rightarrow> world \<Rightarrow> bool io" where
  "reconcile settings w =
     bind (if fileExistsSync w (repositoryPath settings)
           then act (RmRF (repositoryPath settings)) else ret ()) (\<lambda>_.
     bind (if \<not> directoryExistsSync w (repositoryPath settings)
           then act (MkdirP (repositoryPath settings)) else ret ()) (\<lambda>_.
     bind (getPerforceCommandManager settings w) (\<lambda>p4.
     bind (act (SetEnvironmentVariable ''P4PORT'' (repositoryName settings))) (\<lambda>_.
     bind (act (SetEnvironmentVariable ''P4USER'' (authToken settings))) (\<lambda>_.
     bind (catch_throw (verifyLogin w)
             (ThrownString ''Workflow must login to perforce before running checkout'')) (\<lambda>_.
     bind (fetchClient w (clientTemplate settings)) (\<lambda>template.
     bind (clientExists w (clientName settings w)) (\<lambda>found.
     if found then existingBranch settings w template
     else newBranch settings w template))))))))"

text \<open>
  The actions a run may perform before its final sync: the preparation of the root
  directory, the queries, the write of a definition, the activation of the client, the
  purge and the restore. No output is set and no other command is run.
\<close>

definition preSyncAction :: "IPerforceSourceSettings \<Rightarrow> world \<Rightarrow> action \<Rightarrow> bool" where
  "preSyncAction settings w a =
     (case a of
        RmRF p \<Rightarrow> p = repositoryPath settings
      | MkdirP p \<Rightarrow> p = repositoryPath settings
      | SetEnvironmentVariable k v \<Rightarrow> True
      | SetOutput k v \<Rightarrow> False
      | Exec args input \<Rightarrow>
          args = [''-V''] \<or> args = [''login'', ''-s'']
          \<or> take 4 args = [''-Mj'', ''-Ztag'', ''client'', ''-o'']
          \<or> take 2 args = [''clients'', ''-e'']
          \<or> args = [''client'', ''-i'']
          \<or> args = [''sync'', ''-k'', ''//'' @ clientName settings w @ ''/...#none'']
          \<or> args = [''clean'', ''-a'', ''-d'', ''-e'', ''//'' @ clientName settings w @ ''/...''])"

section \<open>The drift conditions, in the words of the specification\<close>

text \<open>
  The conditions are stated over \<open>tm\<close>, the dictionary of the namespace-normalized
  template (depot path to substituted client path), and the view of the existing
  definition: a depot path of the existing view that the dictionary lacks; a depot path
  of both with a different client path; a depot path of the dictionary that the existing
  view lacks. The last one, a depot path listed more than once in the existing view, is
  not in the specification.
\<close>

definition extraDepotPath :: "(string \<times> string) list \<Rightarrow> PerforceMapping list \<Rightarrow> bool" where
  "extraDepotPath tm existing = (\<exists>m \<in> set existing. map_of tm (depot m) = None)"

definition differentClientPath :: "(string \<times> string) list \<Rightarrow> PerforceMapping list \<Rightarrow> bool" where
  "differentClientPath tm existing =
     (\<exists>m \<in> set existing. map_of tm (depot m) \<noteq> None \<and> map_of tm (depot m) \<noteq> Some (client m))"

definition missingDepotPath :: "(string \<times> string) list \<Rightarrow> PerforceMapping list \<Rightarrow> bool" where
  "missingDepotPath tm existing = (\<exists>d \<in> fst ` set tm. d \<notin> depot ` set existing)"

definition repeatedDepotPath :: "PerforceMapping list \<Rightarrow> bool" where
  "repeatedDepotPath existing = (\<not> distinct (map depot existing))"

text \<open>The five conditions of the specification.\<close>

definition drift :: "IPerforceSourceSettings \<Rightarrow> world \<Rightarrow> PerforceClient \<Rightarrow> PerforceClient \<Rightarrow> bool" where
  "drift settings w template existingClient =
     (let tm = templateMappings settings (clientName settings w) (view template) in
      extraDepotPath tm (view existingClient)
      \<or> differentClientPath tm (view existingClient)
      \<or> missingDepotPath tm (view existingClient)
      \<or> host existingClient \<noteq> Some (hostname w)
      \<or> root existingClient \<noteq> Some (repositoryPath settings))"

section \<open>View lines, in the words of the specification\<close>

text \<open>
  The tokens of a line separated by whitespace (space, tab, line feed, carriage return):
  the maximal runs of other characters.
\<close>

definition isSpace :: "char \<Rightarrow> bool" where
  "isSpace c = (c \<in> set [CHR '' '', CHR 0x09, CHR 0x0A, CHR 0x0D])"

fun split_where :: "(char \<Rightarrow> bool) \<Rightarrow> string \<Rightarrow> string list" where
  "split_where P [] = [[]]"
| "split_where P (c # cs) =
     (if P c then [] # split_where P cs
      else (case split_where P cs of p # ps \<Rightarrow> (c # p) # ps | [] \<Rightarrow> [[c]]))"

definition whitespace_tokens :: "string \<Rightarrow> string list" where
  "whitespace_tokens s = filter (\<lambda>p. p \<noteq> []) (split_where isSpace s)"

text \<open>The values of the keys that start with \<^verbatim>\<open>View\<close>, in order.\<close>

definition viewLines :: "(string \<times> string) list \<Rightarrow> string list" where
  "viewLines obj = map snd (filter (\<lambda>(key, v). startsWith key ''View'') obj)"

text \<open>A line that \<^verbatim>\<open>split(' ')\<close> cuts into two parts: it has exactly one space.\<close>

definition oneSpace :: "string \<Rightarrow> bool" where
  "oneSpace v = (length (filter (\<lambda>c. c = CHR '' '') v) = 1)"

section \<open>A port for scenarios\<close>

text \<open>
  A port that answers every command with exit code 0: \<^verbatim>\<open>p4 -V\<close> with the line
  \<open>vline\<close>, \<^verbatim>\<open>client -o T\<close> with the template object \<open>tobj\<close>, \<^verbatim>\<open>clients -e\<close> with a
  line exactly when there is an existing object \<open>eobj\<close>, \<^verbatim>\<open>client -o\<close> of any other name
  with that object. The root path exists as a directory.
\<close>

definition scenario_exec ::
  "string \<Rightarrow> (string \<times> string) list option \<Rightarrow> string list \<Rightarrow> string \<Rightarrow> PerforceOutput" where
  "scenario_exec vline eobj args input =
     \<lparr>stdout =
        (if args = [''-V''] then vline
         else if take 4 args = [''-Mj'', ''-Ztag'', ''client'', ''-o'']
           then (if drop 4 args = [''T''] then ''{template}'' else ''{existing}'')
         else if take 2 args = [''clients'', ''-e'']
           then (case eobj of None \<Rightarrow> [] | Some _ \<Rightarrow> ''Client found'')
         else []),
      exitCode = 0\<rparr>"

definition scenario_world ::
  "string \<Rightarrow> string \<Rightarrow> (string \<times> string) list \<Rightarrow> (string \<times> string) list option \<Rightarrow> world" where
  "scenario_world vline hn tobj eobj =
     \<lparr>hostname = hn,
      fileExistsSync = (\<lambda>_. False),
      directoryExistsSync = (\<lambda>_. True),
      exec = scenario_exec vline eobj,
      JSON_parse = (\<lambda>s. if s = ''{template}'' then Some tobj
                         else if s = ''{existing}'' then eobj else None)\<rparr>"

definition version_line :: string where
  "version_line = ''Rev. P4/NTX64/2023.2/2519561 (2023/11/15).''"

definition scenario_settings :: IPerforceSourceSettings where
  "scenario_settings =
     \<lparr>repositoryName = ''ssl:perforce:1666'',
      repositoryPath = ''/work/repo'',
      ref = ''@42'',
      authToken = ''bob'',
      clientTemplate = ''T'',
      useClientTemplate = False\<rparr>"

text \<open>The template \<^verbatim>\<open>T\<close>: the object the port answers, and the definition read from it.\<close>

definition scenario_template :: "(string \<times> string) list" where
  "scenario_template =
     [(''Client'', ''T''), (''Owner'', ''admin''), (''Description'', ''Build template''),
      (''Root'', ''/template''), (''Options'', ''noallwrite clobber''),
      (''SubmitOptions'', ''submitunchanged''), (''LineEnd'', ''local''),
      (''View0'', ''//depot/a //T/a''), (''View1'', ''//depot/b //T/b'')]"

definition template_client :: PerforceClient where
  "template_client =
     \<lparr>host = None, name = Some ''T'', description = Some ''Build template'',
      options = Some ''noallwrite clobber'', submitOptions = Some ''submitunchanged'',
      lineEnd = Some ''local'', owner = Some ''admin'', root = Some ''/template'',
      view = [\<lparr>depot = ''//depot/a'', client = ''//T/a''\<rparr>,
              \<lparr>depot = ''//depot/b'', client = ''//T/b''\<rparr>]\<rparr>"

text \<open>
  An existing client \<^verbatim>\<open>T_runner_1\<close> on host \<^verbatim>\<open>runner-1\<close>, with its owner and its view
  lines left open: the object the port answers, and the definition read from it.
\<close>

definition scenario_existing ::
  "string option \<Rightarrow> (string \<times> string) list \<Rightarrow> (string \<times> string) list" where
  "scenario_existing ow viewEntries =
     [(''Client'', ''T_runner_1'')]
     @ (case ow of None \<Rightarrow> [] | Some x \<Rightarrow> [(''Owner'', x)])
     @ [(''Host'', ''runner-1''), (''Description'', ''Build template instance for runner-1''),
        (''Root'', ''/work/repo''), (''Options'', ''noallwrite clobber''),
        (''SubmitOptions'', ''submitunchanged''), (''LineEnd'', ''local'')]
     @ viewEntries"

definition existing_client :: "string option \<Rightarrow> PerforceMapping list \<Rightarrow> PerforceClient" where
  "existing_client ow mappings =
     \<lparr>host = Some ''runner-1'', name = Some ''T_runner_1'',
      description = Some ''Build template instance for runner-1'',
      options = Some ''noallwrite clobber'', submitOptions = Some ''submitunchanged'',
      lineEnd = Some ''local'', owner = ow, root = Some ''/work/repo'',
      view = mappings\<rparr>"

text \<open>The world of a run on \<^verbatim>\<open>runner-1\<close> that finds the existing client.\<close>

definition existing_world :: "string option \<Rightarrow> (string \<times> string) list \<Rightarrow> world" where
  "existing_world ow viewEntries =
     scenario_world version_line ''runner-1'' scenario_template
       (Some (scenario_existing ow viewEntries))"

text \<open>The view of the template under the namespace of \<^verbatim>\<open>T_runner_1\<close>, as lines and as mappings.\<close>

definition view_lines_ab :: "(string \<times> string) list" where
  "view_lines_ab =
     [(''View0'', ''//depot/a //T_runner_1/a''), (''View1'', ''//depot/b //T_runner_1/b'')]"

definition view_ab :: "PerforceMapping list" where
  "view_ab = [\<lparr>depot = ''//depot/a'', client = ''//T_runner_1/a''\<rparr>,
              \<lparr>depot = ''//depot/b'', client = ''//T_runner_1/b''\<rparr>]"

text \<open>The same view with a mapping the template does not have, and with a mapping listed twice.\<close>

definition view_lines_abc :: "(string \<times> string) list" where
  "view_lines_abc =
     [(''View0'', ''//depot/a //T_runner_1/a''), (''View1'', ''//depot/b //T_runner_1/b''),
      (''View2'', ''//depot/c //T_runner_1/c'')]"

definition view_abc :: "PerforceMapping list" where
  "view_abc = [\<lparr>depot = ''//depot/a'', client = ''//T_runner_1/a''\<rparr>,
               \<lparr>depot = ''//depot/b'', client = ''//T_runner_1/b''\<rparr>,
               \<lparr>depot = ''//depot/c'', client = ''//T_runner_1/c''\<rparr>]"

definition view_lines_abb :: "(string \<times> string) list" where
  "view_lines_abb =
     [(''View0'', ''//depot/a //T_runner_1/a''), (''View1'', ''//depot/b //T_runner_1/b''),
      (''View2'', ''//depot/b //T_runner_1/b'')]"

definition view_abb :: "PerforceMapping list" where
  "view_abb = [\<lparr>depot = ''//depot/a'', client = ''//T_runner_1/a''\<rparr>,
               \<lparr>depot = ''//depot/b'', client = ''//T_runner_1/b''\<rparr>,
               \<lparr>depot = ''//depot/b'', client = ''//T_runner_1/b''\<rparr>]"

text \<open>The same existing client, and a \<^verbatim>\<open>p4\<close> that reports version 0.0.\<close>

definition old_p4_world :: world where
  "old_p4_world =
     scenario_world ''Rev. P4/NTX64/0.0/1 '' ''runner-1'' scenario_template
       (Some (scenario_existing (Some ''bob'') view_lines_ab))"

text \<open>
  An existing client \<^verbatim>\<open>T_runner_1\<close> of \<^verbatim>\<open>bob\<close> whose object has no \<^verbatim>\<open>Description\<close>,
  with the extra mapping of \<^verbatim>\<open>//depot/c\<close>: the object the port answers, the definition read
  from it, and the world of a run that finds it.
\<close>

definition undescribed_existing :: "(string \<times> string) list" where
  "undescribed_existing =
     [(''Client'', ''T_runner_1''), (''Owner'', ''bob''), (''Host'', ''runner-1''),
      (''Root'', ''/work/repo''), (''Options'', ''noallwrite clobber''),
      (''SubmitOptions'', ''submitunchanged''), (''LineEnd'', ''local'')]
     @ view_lines_abc"

definition undescribed_client :: PerforceClient where
  "undescribed_client =
     \<lparr>host = Some ''runner-1'', name = Some ''T_runner_1'', description = None,
      options = Some ''noallwrite clobber'', submitOptions = Some ''submitunchanged'',
      lineEnd = Some ''local'', owner = Some ''bob'', root = Some ''/work/repo'',
      view = view_abc\<rparr>"

definition undescribed_world :: world where
  "undescribed_world =
     scenario_world version_line ''runner-1'' scenario_template (Some undescribed_existing)"

section \<open>Runs: traces and outcomes\<close>

lemma trace_bind:
  "trace (bind m f) = trace m @ (case outcome m of Inl e \<Rightarrow> [] | Inr x \<Rightarrow> trace (f x))"
  by (simp add: trace_def outcome_def bind_def split: sum.splits)

lemma outcome_bind:
  "outcome (bind m f) = (case outcome m of Inl e \<Rightarrow> Inl e | Inr x \<Rightarrow> outcome (f x))"
  by (simp add: trace_def outcome_def bind_def split: sum.splits)

lemma bind_assoc: "bind (bind m f) g = bind m (\<lambda>x. bind (f x) g)"
  by (simp add: bind_def split: sum.splits)

lemma io_ret [simp]: "trace (ret x) = []" "outcome (ret x) = Inr x"
  by (simp_all add: trace_def outcome_def ret_def)

lemma io_throw [simp]: "trace (throw e) = []" "outcome (throw e) = Inl e"
  by (simp_all add: trace_def outcome_def throw_def)

lemma io_act [simp]: "trace (act a) = [a]" "outcome (act a) = Inr ()"
  by (simp_all add: trace_def outcome_def act_def)

lemma io_catch_throw:
  "trace (catch_throw m e) = trace m"
  "outcome (catch_throw m e) = (case outcome m of Inl _ \<Rightarrow> Inl e | Inr x \<Rightarrow> Inr x)"
  by (auto simp: trace_def outcome_def catch_throw_def split: sum.splits)

lemma io_eq: "m = (trace m, outcome m)"
  by (simp add: trace_def outcome_def)

lemma trace_execP4 [simp]: "trace (execP4 w args input) = [Exec args input]"
  by (simp add: execP4_def trace_bind Let_def)

lemma outcome_execP4:
  "outcome (execP4 w args input) =
     (if exitCode (exec w args input) \<noteq> 0 then Inl (ExecError args (exitCode (exec w args input)))
      else Inr (exec w args input))"
  by (simp add: execP4_def outcome_bind Let_def)

lemma trace_commands [simp]:
  "trace (initializeCommandManager w) = [Exec [''-V''] []]"
  "trace (getPerforceCommandManager settings w) = [Exec [''-V''] []]"
  "trace (verifyLogin w) = [Exec [''login'', ''-s''] []]"
  "trace (fetchClient w nm) = [Exec [''-Mj'', ''-Ztag'', ''client'', ''-o'', nm] []]"
  "trace (clientExists w nm) = [Exec [''clients'', ''-e'', nm] []]"
  "trace (sync w spec) = [Exec [''sync'', spec] []]"
  "trace (syncK w spec) = [Exec [''sync'', ''-k'', spec] []]"
  "trace (revert w spec) = [Exec [''clean'', ''-a'', ''-d'', ''-e'', spec] []]"
  by (simp_all add: initializeCommandManager_def getPerforceCommandManager_def verifyLogin_def
      fetchClient_def clientExists_def sync_def syncK_def revert_def trace_bind Let_def
      split: sum.splits option.splits)

lemma trace_editClient:
  "trace (editClient w c) =
     (case clientSpec c of
        Inl e \<Rightarrow> []
      | Inr spec \<Rightarrow> [Exec [''client'', ''-i''] (join [CHR 0x0A] spec)])"
  by (simp add: editClient_def trace_bind split: sum.splits)

lemma outcome_unit_commands:
  "outcome (sync w spec) = Inr () \<longleftrightarrow> exitCode (exec w [''sync'', spec] []) = 0"
  "outcome (syncK w spec) = Inr () \<longleftrightarrow> exitCode (exec w [''sync'', ''-k'', spec] []) = 0"
  "outcome (revert w spec) = Inr () \<longleftrightarrow> exitCode (exec w [''clean'', ''-a'', ''-d'', ''-e'', spec] []) = 0"
  by (simp_all add: sync_def syncK_def revert_def outcome_bind outcome_execP4)

text \<open>After the existing definition was fetched, no step throws an \<^verbatim>\<open>Error\<close> but the owner check.\<close>

lemma outcome_execP4_not_Error: "outcome (execP4 w args input) \<noteq> Inl (Error detail)"
  by (simp add: outcome_execP4)

lemma not_Error_bind:
  assumes "outcome m \<noteq> Inl (Error detail)" "\<And>x. outcome (f x) \<noteq> Inl (Error detail)"
  shows "outcome (bind m f) \<noteq> Inl (Error detail)"
  using assms by (auto simp: outcome_bind split: sum.splits)

lemma outcome_commands_not_Error:
  "outcome (sync w spec) \<noteq> Inl (Error detail)"
  "outcome (syncK w spec) \<noteq> Inl (Error detail)"
  "outcome (revert w spec) \<noteq> Inl (Error detail)"
  "outcome (editClient w c) \<noteq> Inl (Error detail)"
  by (simp_all add: sync_def syncK_def revert_def editClient_def clientSpec_def outcome_bind
      outcome_execP4 split: sum.splits option.splits)

section \<open>The shape of a run of \<^verbatim>\<open>getSource\<close>\<close>

lemma existingBranch_eq:
  "existingBranch settings w template =
     bind (fetchClient w (clientName settings w)) (checkExisting settings w template)"
  unfolding existingBranch_def checkExisting_def ..

lemma getSource_eq: "getSource settings w = bind (reconcile settings w) (finish settings w)"
  unfolding getSource_def reconcile_def finish_def [abs_def] checkout_def
  by (simp only: bind_assoc)

lemma trace_checkout:
  "trace (checkout settings w) =
     Exec [''clean'', ''-a'', ''-d'', ''-e'', ''//'' @ clientName settings w @ ''/...''] []
     # (if outcome (revert w (''//'' @ clientName settings w @ ''/...'')) = Inr ()
        then Exec [''sync'', ''//'' @ clientName settings w @ ''/...'' @ ref settings] []
             # (if outcome (sync w (''//'' @ clientName settings w @ ''/...'' @ ref settings)) = Inr ()
                then [SetOutput ''commit'' (ref settings)] else [])
        else [])"
  by (simp add: checkout_def trace_bind split: sum.splits)

lemma outcome_checkout:
  "outcome (checkout settings w) = Inr () \<longleftrightarrow>
     outcome (revert w (''//'' @ clientName settings w @ ''/...'')) = Inr ()
     \<and> outcome (sync w (''//'' @ clientName settings w @ ''/...'' @ ref settings)) = Inr ()"
  by (simp add: checkout_def outcome_bind split: sum.splits)

lemma outcome_checkout_not_Error: "outcome (checkout settings w) \<noteq> Inl (Error detail)"
  unfolding checkout_def
  by (intro not_Error_bind outcome_commands_not_Error) simp

lemma trace_finish:
  "trace (finish settings w needSyncNone) =
     SetEnvironmentVariable ''P4CLIENT'' (clientName settings w)
     # (if needSyncNone
        then Exec [''sync'', ''-k'', ''//'' @ clientName settings w @ ''/...#none''] []
             # (if outcome (syncK w (''//'' @ clientName settings w @ ''/...#none'')) = Inr ()
                then RmRF (repositoryPath settings) # MkdirP (repositoryPath settings)
                     # trace (checkout settings w)
                else [])
        else trace (checkout settings w))"
  by (simp add: finish_def trace_bind outcome_bind split: sum.splits)

lemma outcome_finish:
  "outcome (finish settings w needSyncNone) = Inr () \<longleftrightarrow>
     (needSyncNone \<longrightarrow> outcome (syncK w (''//'' @ clientName settings w @ ''/...#none'')) = Inr ())
     \<and> outcome (checkout settings w) = Inr ()"
  by (simp add: finish_def outcome_bind split: sum.splits)

lemma outcome_finish_not_Error: "outcome (finish settings w needSyncNone) \<noteq> Inl (Error detail)"
proof (cases needSyncNone)
  case True
  then show ?thesis
    unfolding finish_def
    by (simp only: if_True)
      (intro not_Error_bind outcome_commands_not_Error outcome_checkout_not_Error; simp)
next
  case False
  then show ?thesis
    unfolding finish_def
    by (simp only: if_False)
      (intro not_Error_bind outcome_commands_not_Error outcome_checkout_not_Error; simp)
qed

lemma getSource_existing:
  assumes "reaches_existing settings w template existingClient"
  shows "trace (getSource settings w) =
           preflight settings w @ queries settings w
           @ trace (bind (checkExisting settings w template existingClient) (finish settings w))"
    and "outcome (getSource settings w) =
           outcome (bind (checkExisting settings w template existingClient) (finish settings w))"
proof -
  from assms obtain v where v: "outcome (getPerforceCommandManager settings w) = Inr v"
    by (cases "outcome (getPerforceCommandManager settings w)") (auto simp: reaches_existing_def)
  from assms have r: "outcome (verifyLogin w) = Inr ()"
    "outcome (fetchClient w (clientTemplate settings)) = Inr template"
    "outcome (clientExists w (clientName settings w)) = Inr True"
    "outcome (fetchClient w (clientName settings w)) = Inr existingClient"
    by (simp_all add: reaches_existing_def)
  have e: "getSource settings w =
     bind (if fileExistsSync w (repositoryPath settings)
           then act (RmRF (repositoryPath settings)) else ret ()) (\<lambda>_.
     bind (if \<not> directoryExistsSync w (repositoryPath settings)
           then act (MkdirP (repositoryPath settings)) else ret ()) (\<lambda>_.
     bind (getPerforceCommandManager settings w) (\<lambda>p4.
     bind (act (SetEnvironmentVariable ''P4PORT'' (repositoryName settings))) (\<lambda>_.
     bind (act (SetEnvironmentVariable ''P4USER'' (authToken settings))) (\<lambda>_.
     bind (catch_throw (verifyLogin w)
             (ThrownString ''Workflow must login to perforce before running checkout'')) (\<lambda>_.
     bind (fetchClient w (clientTemplate settings)) (\<lambda>template.
     bind (clientExists w (clientName settings w)) (\<lambda>found.
     bind (if found then existingBranch settings w template
           else newBranch settings w template) (finish settings w)))))))))"
    by (simp only: getSource_def finish_def [abs_def] checkout_def)
  show "trace (getSource settings w) =
           preflight settings w @ queries settings w
           @ trace (bind (checkExisting settings w template existingClient) (finish settings w))"
    by (simp add: e existingBranch_eq trace_bind outcome_bind io_catch_throw v r
        queries_def preflight_def)
  show "outcome (getSource settings w) =
           outcome (bind (checkExisting settings w template existingClient) (finish settings w))"
    by (simp add: e existingBranch_eq trace_bind outcome_bind io_catch_throw v r)
qed

section \<open>Version parsing and comparison\<close>

lemma toDouble_not_NaN [simp]: "toDouble n \<noteq> NaN"
  by (simp add: toDouble_def Let_def)

lemma toDouble_exact [simp]: "n < 2 ^ 53 \<Longrightarrow> toDouble n = Num n"
  by (simp add: toDouble_def)

lemma bit_length_numeral [simp]:
  "bit_length (numeral k) = Suc (bit_length (numeral k div 2))"
  by (subst bit_length.simps) simp

lemma bit_length_0 [simp]: "bit_length 0 = 0"
  by (simp add: bit_length.simps)

lemma bit_length_1 [simp]: "bit_length (Suc 0) = 1"
  by (simp add: bit_length.simps [of "Suc 0"])

lemma toDouble_examples:
  "toDouble 9007199254740993 = Num 9007199254740992"
  "toDouble 18014398509481985 = Num 18014398509481984"
  by (simp_all add: toDouble_def Let_def)


lemma bit_length_Suc: "n \<noteq> 0 \<Longrightarrow> bit_length n = Suc (bit_length (n div 2))"
  by (subst bit_length.simps) simp

lemma bit_length_bounds:
  "n \<noteq> 0 \<Longrightarrow> 2 ^ (bit_length n - 1) \<le> n \<and> n < 2 ^ bit_length n"
proof (induction n rule: bit_length.induct)
  case (1 n)
  show ?case
  proof (cases "n div 2 = 0")
    case True
    with 1(2) have "n = 1" by (cases n) auto
    then show ?thesis by simp
  next
    case False
    with 1 have ih: "2 ^ (bit_length (n div 2) - 1) \<le> n div 2" "n div 2 < 2 ^ bit_length (n div 2)"
      by simp_all
    obtain k where k: "bit_length (n div 2) = Suc k"
      using False by (auto simp: bit_length_Suc)
    have bl: "bit_length n = Suc (Suc k)"
      using 1(2) k by (simp add: bit_length_Suc)
    have "2 * 2 ^ k \<le> n"
      using ih(1) unfolding k by simp
    moreover have "n < 2 * (2 * 2 ^ k)"
      using ih(2) unfolding k by simp
    ultimately show ?thesis
      unfolding bl by simp
  qed
qed


lemma toDouble_Infinity:
  assumes "2 ^ 1024 \<le> n"
  shows "toDouble n = Infinity"
proof -
  define e where "e = bit_length n - 53"
  have n0: "n \<noteq> 0"
    using assms by auto
  have big: "\<not> n < 2 ^ 53"
  proof -
    have "(2::nat) ^ 53 \<le> 2 ^ 1024" by (rule power_increasing) simp_all
    with assms show ?thesis by simp
  qed
  from bit_length_bounds [OF n0] have lo: "2 ^ (bit_length n - 1) \<le> n" and hi: "n < 2 ^ bit_length n"
    by simp_all
  from assms hi have lt: "(2::nat) ^ 1024 < 2 ^ bit_length n"
    by (rule le_less_trans)
  have two: "(1::nat) < 2"
    by simp
  from two lt have bl: "1024 < bit_length n"
    by (rule power_less_imp_less_exp)
  then have split: "bit_length n - 1 = 52 + e"
    by (simp add: e_def)
  have "2 ^ 52 * 2 ^ e \<le> n"
    using lo unfolding split by (simp add: power_add)
  then have q: "2 ^ 52 \<le> n div 2 ^ e"
    by (simp add: less_eq_div_iff_mult_less_eq)
  have e: "972 \<le> e"
    using bl by (simp add: e_def)
  have "(2::nat) ^ 1024 = 2 ^ 52 * 2 ^ 972"
    by (simp flip: power_add)
  also have "\<dots> \<le> 2 ^ 52 * 2 ^ e"
  proof -
    from e have "(2::nat) ^ 972 \<le> 2 ^ e"
      by (rule power_increasing) simp
    then show ?thesis
      by (rule mult_le_mono2)
  qed
  also have "\<dots> \<le> (n div 2 ^ e) * 2 ^ e"
    using q by simp
  finally have r: "2 ^ 1024 \<le> (n div 2 ^ e) * 2 ^ e" .
  then have r': "2 ^ 1024 \<le> (n div 2 ^ e + 1) * 2 ^ e"
    by (simp add: add_mult_distrib) 
  show ?thesis
    using big r r' unfolding toDouble_def Let_def e_def [symmetric]
    by (simp del: power_numeral)
qed

lemma toDouble_nearest:
  assumes "2 ^ 53 \<le> n" "toDouble n = Num m"
  shows "2 ^ (bit_length n - 53) dvd m
         \<and> 2 * (m - n) \<le> 2 ^ (bit_length n - 53)
         \<and> 2 * (n - m) \<le> 2 ^ (bit_length n - 53)"
proof -
  define e where "e = bit_length n - 53"
  define q where "q = n div 2 ^ e"
  define r where "r = n mod 2 ^ e"
  have n0: "n \<noteq> 0"
    using assms(1) by auto
  have n: "n = q * 2 ^ e + r"
    unfolding q_def r_def by (rule div_mult_mod_eq [symmetric])
  have r: "r < 2 ^ e"
    by (simp add: r_def)
  from bit_length_bounds [OF n0] have "n < 2 ^ bit_length n"
    by simp
  with assms(1) have lt: "(2::nat) ^ 53 < 2 ^ bit_length n"
    by (rule le_less_trans)
  have two: "(1::nat) < 2"
    by simp
  from two lt have "53 < bit_length n"
    by (rule power_less_imp_less_exp)
  then have e: "e = Suc (e - 1)"
    by (simp add: e_def)
  have h: "(2::nat) ^ e = 2 * 2 ^ (e - 1)"
    by (subst e) simp
  have big: "\<not> n < 2 ^ 53"
    using assms(1) by simp
  show ?thesis
  proof (cases "2 ^ (e - 1) < r \<or> (r = 2 ^ (e - 1) \<and> q mod 2 = 1)")
    case True
    with assms(2) big have m: "m = (q + 1) * 2 ^ e"
      unfolding toDouble_def Let_def e_def [symmetric] q_def [symmetric] r_def [symmetric]
      by (simp del: power_numeral split: if_splits)
    have d: "m - n = 2 ^ e - r" "n - m = 0"
      using r by (simp_all add: m n add_mult_distrib)
    have "2 * (2 ^ e - r) \<le> 2 ^ e"
      using True h by auto
    moreover have "2 ^ e dvd m"
      unfolding m by (rule dvd_triv_right)
    ultimately show ?thesis
      unfolding e_def [symmetric] d by simp
  next
    case False
    with assms(2) big have m: "m = q * 2 ^ e"
      unfolding toDouble_def Let_def e_def [symmetric] q_def [symmetric] r_def [symmetric]
      by (simp del: power_numeral split: if_splits)
    have d: "m - n = 0" "n - m = r"
      by (simp_all add: m n)
    have "2 * r \<le> 2 ^ e"
      using False h by auto
    moreover have "2 ^ e dvd m"
      unfolding m by (rule dvd_triv_right)
    ultimately show ?thesis
      unfolding e_def [symmetric] d by simp
  qed
qed

lemma isDigit_dot [simp]: "\<not> isDigit CHR ''.''"
  by (simp add: isDigit_def)

lemma version_match_digits_dot:
  assumes "d1 \<noteq> []" "list_all isDigit d1" "list_all isDigit d2"
  shows "version_match (d1 @ ''.'' @ d2) = Some (d1, if d2 = [] then None else Some d2)"
proof -
  have all: "\<forall>c\<in>set d1. isDigit c"
    using assms(2) by (simp add: list_all_iff)
  have t: "takeWhile isDigit (d1 @ CHR ''.'' # d2) = d1"
    using all by (simp add: takeWhile_tail)
  have d: "dropWhile isDigit (d1 @ CHR ''.'' # d2) = CHR ''.'' # d2"
    using all by (simp add: dropWhile_append3)
  show ?thesis
    using assms by (simp add: version_match_def t d)
qed

lemma version_match_Some:
  assumes "version_match s = Some (m1, m2)"
  shows "m1 \<noteq> [] \<and> list_all isDigit m1 \<and>
         (case m2 of None \<Rightarrow> s = m1 @ ''.''
          | Some d2 \<Rightarrow> d2 \<noteq> [] \<and> list_all isDigit d2 \<and> s = m1 @ ''.'' @ d2)"
proof -
  have split: "s = takeWhile isDigit s @ dropWhile isDigit s"
    by simp
  have digits: "list_all isDigit (takeWhile isDigit s)"
    by (simp add: list_all_iff) (meson set_takeWhileD)
  from assms obtain d2 where r: "dropWhile isDigit s = CHR ''.'' # d2"
    and m1: "m1 = takeWhile isDigit s" and ne: "m1 \<noteq> []"
    and m2: "m2 = (if d2 = [] then None else Some d2)"
    and d2: "d2 = [] \<or> list_all isDigit d2"
    by (auto simp: version_match_def Let_def split: if_splits list.splits)
  from split r m1 have s: "s = m1 @ CHR ''.'' # d2"
    by simp
  show ?thesis
    using s ne digits m1 m2 d2 by (auto split: option.splits)
qed

lemma isValid_newPerforceVersion:
  "isValid (newPerforceVersion x) \<longleftrightarrow>
     (\<exists>d1 d2. x = Some (d1 @ ''.'' @ d2) \<and> d1 \<noteq> [] \<and> list_all isDigit d1 \<and> list_all isDigit d2)"
proof
  assume v: "isValid (newPerforceVersion x)"
  then obtain s m1 m2 where x: "x = Some s" and m: "version_match s = Some (m1, m2)"
    by (auto simp: isValid_def newPerforceVersion_def split: option.splits if_splits)
  from version_match_Some [OF m] x show
    "\<exists>d1 d2. x = Some (d1 @ ''.'' @ d2) \<and> d1 \<noteq> [] \<and> list_all isDigit d1 \<and> list_all isDigit d2"
    by (cases m2) force+
next
  assume "\<exists>d1 d2. x = Some (d1 @ ''.'' @ d2) \<and> d1 \<noteq> [] \<and> list_all isDigit d1 \<and> list_all isDigit d2"
  then obtain d1 d2 where x: "x = Some (d1 @ ''.'' @ d2)" and a: "d1 \<noteq> []"
    "list_all isDigit d1" "list_all isDigit d2"
    by blast
  show "isValid (newPerforceVersion x)"
    using version_match_digits_dot [OF a] a(1)
    by (simp add: x isValid_def newPerforceVersion_def Number_def)
qed

lemma newPerforceVersion_digits_dot:
  assumes "d1 \<noteq> []" "list_all isDigit d1" "list_all isDigit d2"
  shows "newPerforceVersion (Some (d1 @ ''.'' @ d2)) =
           \<lparr>major = toDouble (decimal d1),
            minor = (if d2 = [] then NaN else toDouble (decimal d2))\<rparr>"
  using version_match_digits_dot [OF assms] assms(1)
  by (simp add: newPerforceVersion_def Number_def)

lemma newPerforceVersion_invalid:
  "\<not> isValid (newPerforceVersion x) \<Longrightarrow> newPerforceVersion x = \<lparr>major = NaN, minor = NaN\<rparr>"
  by (auto simp: isValid_def newPerforceVersion_def Number_def split: option.splits if_splits)

lemma version_match_2023 [simp]: "version_match ''2023'' = None"
  by (simp add: version_match_def isDigit_def)

lemma all_trace_bind:
  assumes "\<forall>a\<in>set (trace m). P a" "\<And>x. \<forall>a\<in>set (trace (f x)). P a"
  shows "\<forall>a\<in>set (trace (bind m f)). P a"
  using assms by (auto simp: trace_bind split: sum.splits)

lemma preSyncAction_atoms:
  "preSyncAction settings w (RmRF (repositoryPath settings))"
  "preSyncAction settings w (MkdirP (repositoryPath settings))"
  "preSyncAction settings w (SetEnvironmentVariable k v)"
  "preSyncAction settings w (Exec [''-V''] input)"
  "preSyncAction settings w (Exec [''login'', ''-s''] input)"
  "preSyncAction settings w (Exec [''-Mj'', ''-Ztag'', ''client'', ''-o'', nm] input)"
  "preSyncAction settings w (Exec [''clients'', ''-e'', nm] input)"
  "preSyncAction settings w (Exec [''client'', ''-i''] input)"
  "preSyncAction settings w (Exec [''sync'', ''-k'', ''//'' @ clientName settings w @ ''/...#none''] input)"
  "preSyncAction settings w
     (Exec [''clean'', ''-a'', ''-d'', ''-e'', ''//'' @ clientName settings w @ ''/...''] input)"
  by (simp_all add: preSyncAction_def)

lemma preSyncAction_editClient: "\<forall>a\<in>set (trace (editClient w c)). preSyncAction settings w a"
  by (cases "clientSpec c") (simp_all add: trace_editClient preSyncAction_atoms)

lemma preSyncAction_fetchClient: "\<forall>a\<in>set (trace (fetchClient w nm)). preSyncAction settings w a"
  by (simp add: preSyncAction_atoms)

lemma preSyncAction_existingBranch:
  "\<forall>a\<in>set (trace (existingBranch settings w template)). preSyncAction settings w a"
  unfolding existingBranch_def
proof (intro all_trace_bind preSyncAction_fetchClient)
  fix x
  show "\<forall>a\<in>set (trace (if ownerMismatch x (authToken settings)
          then throw (Error (''Client owner does not match, aborting. '' @ str (owner x)
                 @ '' != '' @ authToken settings))
          else if rebuildClient settings w template x
          then bind (editClient w (x\<lparr>host := Some (hostname w),
                 root := Some (repositoryPath settings),
                 view := templateView settings w template\<rparr>)) (\<lambda>_. ret True)
          else ret False)). preSyncAction settings w a"
    using preSyncAction_editClient [of w _ settings]
    by (simp add: trace_bind split: sum.splits)
qed

lemma preSyncAction_newBranch:
  "\<forall>a\<in>set (trace (newBranch settings w template)). preSyncAction settings w a"
  unfolding newBranch_def
  by (intro all_trace_bind preSyncAction_fetchClient preSyncAction_editClient) simp

lemma preSyncAction_reconcile: "\<forall>a\<in>set (trace (reconcile settings w)). preSyncAction settings w a"
  unfolding reconcile_def
  by (intro all_trace_bind;
      simp add: preSyncAction_atoms io_catch_throw preSyncAction_existingBranch
        preSyncAction_newBranch)

lemma outcome_bind_Inr:
  assumes "outcome (bind m f) = Inr y"
  obtains x where "outcome m = Inr x" "outcome (f x) = Inr y" "trace (bind m f) = trace m @ trace (f x)"
  using assms by (cases "outcome m") (auto simp: outcome_bind trace_bind)

text \<open>What the run does with an existing definition that passes the owner check.\<close>

lemma trace_checkExisting:
  assumes "\<not> ownerMismatch existingClient (authToken settings)"
  shows "trace (bind (checkExisting settings w template existingClient) (finish settings w)) =
     (if rebuildClient settings w template existingClient
      then trace (editClient w (rebuilt settings w template existingClient))
           @ (if outcome (editClient w (rebuilt settings w template existingClient)) = Inr ()
              then trace (finish settings w True) else [])
      else trace (finish settings w False))"
  using assms
  by (simp add: checkExisting_def rebuilt_def trace_bind outcome_bind split: sum.splits)

lemma not_Error_checkExisting:
  assumes "\<not> ownerMismatch existingClient (authToken settings)"
  shows "outcome (bind (checkExisting settings w template existingClient) (finish settings w))
           \<noteq> Inl (Error detail)"
proof (cases "rebuildClient settings w template existingClient")
  case True
  with assms show ?thesis
    unfolding checkExisting_def
    by (simp only: if_True if_False)
      (intro not_Error_bind outcome_commands_not_Error outcome_finish_not_Error; simp)
next
  case False
  with assms show ?thesis
    unfolding checkExisting_def
    by (simp only: if_True if_False)
      (intro not_Error_bind outcome_finish_not_Error; simp)
qed

section \<open>The scenarios, evaluated\<close>

lemma scenario_world_simps [simp]:
  "hostname (scenario_world vline hn tobj eobj) = hn"
  "fileExistsSync (scenario_world vline hn tobj eobj) p = False"
  "directoryExistsSync (scenario_world vline hn tobj eobj) p = True"
  "exitCode (exec (scenario_world vline hn tobj eobj) args input) = 0"
  "stdout (exec (scenario_world vline hn tobj eobj) [''-V''] input) = vline"
  "stdout (exec (scenario_world vline hn tobj eobj) [''-Mj'', ''-Ztag'', ''client'', ''-o'', nm] input)
     = (if nm = ''T'' then ''{template}'' else ''{existing}'')"
  "stdout (exec (scenario_world vline hn tobj eobj) [''clients'', ''-e'', nm] input)
     = (case eobj of None \<Rightarrow> [] | Some _ \<Rightarrow> ''Client found'')"
  "JSON_parse (scenario_world vline hn tobj eobj) ''{template}'' = Some tobj"
  "JSON_parse (scenario_world vline hn tobj eobj) ''{existing}'' = eobj"
  by (simp_all add: scenario_world_def scenario_exec_def)

lemma scenario_settings_simps [simp]:
  "repositoryName scenario_settings = ''ssl:perforce:1666''"
  "repositoryPath scenario_settings = ''/work/repo''"
  "ref scenario_settings = ''@42''"
  "authToken scenario_settings = ''bob''"
  "clientTemplate scenario_settings = ''T''"
  "useClientTemplate scenario_settings = False"
  by (simp_all add: scenario_settings_def)

lemma scenario_clientName [simp]:
  "clientName scenario_settings (scenario_world vline ''runner-1'' tobj eobj) = ''T_runner_1''"
  by (simp add: clientName_def js_replace_def)

lemma scenario_version:
  "outcome (getPerforceCommandManager settings (scenario_world version_line hn tobj eobj))
     = Inr \<lparr>major = Num 2023, minor = Num 2\<rparr>"
  by (simp add: getPerforceCommandManager_def initializeCommandManager_def outcome_bind
      outcome_execP4 version_line_def version_at_def strip_prefix_def isWord_def isDigit_def
      newPerforceVersion_def version_match_def isValid_def Number_def decimal_def)

lemma scenario_commands [simp]:
  "outcome (verifyLogin (scenario_world vline hn tobj eobj)) = Inr ()"
  "outcome (sync (scenario_world vline hn tobj eobj) spec) = Inr ()"
  "outcome (syncK (scenario_world vline hn tobj eobj) spec) = Inr ()"
  "outcome (revert (scenario_world vline hn tobj eobj) spec) = Inr ()"
  "outcome (clientExists (scenario_world vline hn tobj eobj) nm) = Inr (eobj \<noteq> None)"
  by (simp_all add: verifyLogin_def sync_def syncK_def revert_def clientExists_def outcome_bind
      outcome_execP4 split: option.splits)

lemma scenario_editClient [simp]:
  "description c \<noteq> None \<Longrightarrow> outcome (editClient (scenario_world vline hn tobj eobj) c) = Inr ()"
  by (auto simp: editClient_def clientSpec_def outcome_bind outcome_execP4)

lemma scenario_fetch_template:
  "outcome (fetchClient (scenario_world vline hn scenario_template eobj) ''T'') = Inr template_client"
  by (simp add: fetchClient_def outcome_bind outcome_execP4 scenario_template_def
      template_client_def startsWith_def)

lemma scenario_fetch_existing:
  assumes "viewMappings viewEntries = Inr mappings" "map_of viewEntries ''Owner'' = None"
  shows "outcome (fetchClient (existing_world ow viewEntries) ''T_runner_1'')
           = Inr (existing_client ow mappings)"
  using assms
  by (cases ow)
    (simp_all add: existing_world_def fetchClient_def outcome_bind outcome_execP4
      scenario_existing_def existing_client_def startsWith_def)

lemma viewMappings_ab: "viewMappings view_lines_ab = Inr view_ab"
  by (simp add: view_lines_ab_def view_ab_def startsWith_def)

lemma no_Owner_ab: "map_of view_lines_ab ''Owner'' = None"
  by (simp add: view_lines_ab_def)

lemma reaches_existing_scenario:
  assumes "viewMappings viewEntries = Inr mappings" "map_of viewEntries ''Owner'' = None"
  shows "reaches_existing scenario_settings (existing_world ow viewEntries) template_client
           (existing_client ow mappings)"
  using scenario_fetch_existing [OF assms, of ow]
  by (simp add: reaches_existing_def existing_world_def scenario_version scenario_fetch_template)

lemma existing_world_simps [simp]:
  "preflight scenario_settings (existing_world ow viewEntries) = []"
  "queries scenario_settings (existing_world ow viewEntries) =
     [Exec [''-V''] [],
      SetEnvironmentVariable ''P4PORT'' ''ssl:perforce:1666'',
      SetEnvironmentVariable ''P4USER'' ''bob'',
      Exec [''login'', ''-s''] [],
      Exec [''-Mj'', ''-Ztag'', ''client'', ''-o'', ''T''] [],
      Exec [''clients'', ''-e'', ''T_runner_1''] [],
      Exec [''-Mj'', ''-Ztag'', ''client'', ''-o'', ''T_runner_1''] []]"
  "clientName scenario_settings (existing_world ow viewEntries) = ''T_runner_1''"
  "hostname (existing_world ow viewEntries) = ''runner-1''"
  by (simp_all add: existing_world_def preflight_def queries_def)

section \<open>Rebuild: what is written and in which order\<close>

lemma getSource_checked:
  assumes "reaches_existing settings w template existingClient"
    "\<not> ownerMismatch existingClient (authToken settings)"
  shows "trace (getSource settings w) =
     preflight settings w @ queries settings w
     @ (if rebuildClient settings w template existingClient
        then trace (editClient w (rebuilt settings w template existingClient))
             @ (if outcome (editClient w (rebuilt settings w template existingClient)) = Inr ()
                then trace (finish settings w True) else [])
        else trace (finish settings w False))"
  by (simp only: getSource_existing(1) [OF assms(1)] trace_checkExisting [OF assms(2)])

lemma clientSpec_rebuilt:
  assumes "description existingClient = Some d"
  shows "clientSpec (rebuilt settings w template existingClient) =
     Inr ([''Client:'' @ [CHR 0x09] @ str (name existingClient),
           ''Owner:'' @ [CHR 0x09] @ str (owner existingClient),
           ''Host:'' @ [CHR 0x09] @ hostname w,
           ''Description:'']
          @ map (\<lambda>line. CHR 0x09 # line) (js_split CHR 0x0A d)
          @ [''Root:'' @ [CHR 0x09] @ repositoryPath settings,
             ''Options:'' @ [CHR 0x09] @ str (options existingClient),
             ''SubmitOptions:'' @ [CHR 0x09] @ str (submitOptions existingClient),
             ''LineEnd:'' @ [CHR 0x09] @ str (lineEnd existingClient),
             ''View:'']
          @ map (\<lambda>mapping. CHR 0x09 # depot mapping @ '' '' @ client mapping)
              (templateView settings w template))"
  using assms by (simp add: clientSpec_def rebuilt_def str_def)

section \<open>Drift detection\<close>

lemma map_of_delete_None_iff:
  "map_of (AList.delete k tm) d = None \<longleftrightarrow> d = k \<or> map_of tm d = None"
  by (simp add: delete_conv')

lemma differentClientPath_delete:
  "differentClientPath (AList.delete (depot m) tm) ms \<or> depot m \<in> depot ` set ms
     \<longleftrightarrow> differentClientPath tm ms \<or> depot m \<in> depot ` set ms"
proof -
  have "\<And>x. x \<in> set ms \<Longrightarrow> depot x \<noteq> depot m \<Longrightarrow>
     map_of (AList.delete (depot m) tm) (depot x) = map_of tm (depot x)"
    by (simp add: delete_conv')
  moreover have "\<And>x. x \<in> set ms \<Longrightarrow> depot x = depot m \<Longrightarrow> depot m \<in> depot ` set ms"
    by force
  moreover have "\<And>x. map_of (AList.delete (depot m) tm) (depot m) = None"
    by (simp add: delete_conv')
  ultimately show ?thesis
    unfolding differentClientPath_def by metis
qed

lemma extraDepotPath_delete:
  "extraDepotPath (AList.delete (depot m) tm) ms \<longleftrightarrow>
     depot m \<in> depot ` set ms \<or> extraDepotPath tm ms"
proof -
  have h: "\<And>x. map_of (AList.delete (depot m) tm) (depot x) = None \<longleftrightarrow>
      depot x = depot m \<or> map_of tm (depot x) = None"
    by (simp add: delete_conv')
  show ?thesis
    unfolding extraDepotPath_def image_iff h by (auto simp: eq_commute)
qed

lemma drift_conditions_Cons:
  "extraDepotPath tm (m # ms) \<longleftrightarrow> map_of tm (depot m) = None \<or> extraDepotPath tm ms"
  "differentClientPath tm (m # ms) \<longleftrightarrow>
     (map_of tm (depot m) \<noteq> None \<and> map_of tm (depot m) \<noteq> Some (client m))
     \<or> differentClientPath tm ms"
  "repeatedDepotPath (m # ms) \<longleftrightarrow> depot m \<in> depot ` set ms \<or> repeatedDepotPath ms"
  by (simp_all add: extraDepotPath_def differentClientPath_def repeatedDepotPath_def)

lemma fst_checkMappings:
  "fst (checkMappings tm existing rebuild) \<longleftrightarrow>
     rebuild \<or> extraDepotPath tm existing \<or> differentClientPath tm existing
     \<or> repeatedDepotPath existing"
proof (induction existing arbitrary: tm rebuild)
  case Nil
  show ?case
    by (simp add: extraDepotPath_def differentClientPath_def repeatedDepotPath_def)
next
  case (Cons m ms)
  have "fst (checkMappings tm (m # ms) rebuild) \<longleftrightarrow>
      (if map_of tm (depot m) = None then True
       else if map_of tm (depot m) \<noteq> Some (client m) then True else rebuild)
      \<or> (depot m \<in> depot ` set ms \<or> extraDepotPath tm ms)
      \<or> differentClientPath (AList.delete (depot m) tm) ms
      \<or> repeatedDepotPath ms"
    unfolding checkMappings.simps Cons.IH extraDepotPath_delete ..
  also have "\<dots> \<longleftrightarrow> rebuild \<or> extraDepotPath tm (m # ms) \<or> differentClientPath tm (m # ms)
      \<or> repeatedDepotPath (m # ms)"
    unfolding drift_conditions_Cons
    using differentClientPath_delete [of m tm ms]
    by (cases "map_of tm (depot m) = None"; cases "map_of tm (depot m) = Some (client m)";
        cases rebuild; simp; blast)
  finally show ?case .
qed

lemma snd_checkMappings:
  "set (snd (checkMappings tm existing rebuild)) = {p \<in> set tm. fst p \<notin> depot ` set existing}"
proof (induction existing arbitrary: tm rebuild)
  case Nil
  show ?case by simp
next
  case (Cons m ms)
  show ?case
    unfolding checkMappings.simps Cons.IH
    by (auto simp: AList.delete_eq)
qed

lemma snd_checkMappings_missing:
  "snd (checkMappings tm existing rebuild) \<noteq> [] \<longleftrightarrow> missingDepotPath tm existing"
proof -
  have "snd (checkMappings tm existing rebuild) \<noteq> [] \<longleftrightarrow>
          set (snd (checkMappings tm existing rebuild)) \<noteq> {}"
    by simp
  also have "\<dots> \<longleftrightarrow> missingDepotPath tm existing"
    unfolding snd_checkMappings missingDepotPath_def by force
  finally show ?thesis .
qed

lemma rebuildClient_iff:
  "rebuildClient settings w template existingClient \<longleftrightarrow>
     drift settings w template existingClient \<or> repeatedDepotPath (view existingClient)"
  unfolding rebuildClient_def drift_def Let_def fst_checkMappings snd_checkMappings_missing
  by auto

text \<open>The dictionary of the template: a later line for a depot path replaces an earlier one.\<close>

lemma map_of_foldl_update:
  "map_of (foldl (\<lambda>tm m. AList.update (k m) (v m) tm) tm0 xs) =
     map_of tm0 ++ map_of (rev (map (\<lambda>m. (k m, v m)) xs))"
proof (induction xs arbitrary: tm0)
  case Nil
  show ?case by simp
next
  case (Cons x xs)
  show ?case
    by (auto simp: Cons.IH update_conv' map_add_def fun_upd_def split: option.splits)
qed

lemma map_of_templateMappings:
  "map_of (templateMappings settings cn vw) =
     map_of (rev (map (\<lambda>m. (depot m, namespaced settings cn (client m))) vw))"
  unfolding templateMappings_def map_of_foldl_update by simp

lemma keys_templateMappings: "fst ` set (templateMappings settings cn vw) = depot ` set vw"
proof -
  have "fst ` set (templateMappings settings cn vw) = dom (map_of (templateMappings settings cn vw))"
    by (simp add: dom_map_of_conv_image_fst)
  also have "\<dots> = fst ` set (rev (map (\<lambda>m. (depot m, namespaced settings cn (client m))) vw))"
    unfolding map_of_templateMappings by (simp only: dom_map_of_conv_image_fst)
  also have "\<dots> = depot ` set vw"
    by (simp add: image_image)
  finally show ?thesis .
qed

lemma lookup_templateMappings:
  assumes "distinct (map depot vw)" "m \<in> set vw"
  shows "map_of (templateMappings settings cn vw) (depot m) = Some (namespaced settings cn (client m))"
proof -
  have "distinct (map fst (rev (map (\<lambda>m. (depot m, namespaced settings cn (client m))) vw)))"
    using assms(1) by (simp add: rev_map [symmetric] comp_def)
  moreover have "(depot m, namespaced settings cn (client m))
      \<in> set (rev (map (\<lambda>m. (depot m, namespaced settings cn (client m))) vw))"
    using assms(2) by simp
  ultimately show ?thesis
    unfolding map_of_templateMappings by (rule map_of_is_SomeI)
qed

text \<open>
  The definition that a rebuild writes shows no drift when it is checked against the
  same template, provided the template lists no depot path twice.
\<close>

lemma rebuilt_no_drift:
  assumes "distinct (map depot (view template))"
  shows "\<not> rebuildClient settings w template (rebuilt settings w template existingClient)"
proof -
  let ?tm = "templateMappings settings (clientName settings w) (view template)"
  let ?v = "templateView settings w template"
  have v: "view (rebuilt settings w template existingClient) = ?v"
    "host (rebuilt settings w template existingClient) = Some (hostname w)"
    "root (rebuilt settings w template existingClient) = Some (repositoryPath settings)"
    by (simp_all add: rebuilt_def)
  have look: "\<And>x. x \<in> set ?v \<Longrightarrow> map_of ?tm (depot x) = Some (client x)"
    using lookup_templateMappings [OF assms] by (auto simp: templateView_def)
  have "\<not> extraDepotPath ?tm ?v"
    using look by (auto simp: extraDepotPath_def)
  moreover have "\<not> differentClientPath ?tm ?v"
    using look by (auto simp: differentClientPath_def)
  moreover have "depot ` set ?v = depot ` set (view template)"
    by (simp add: templateView_def image_image)
  then have "\<not> missingDepotPath ?tm ?v"
    by (simp add: missingDepotPath_def keys_templateMappings)
  moreover have "\<not> repeatedDepotPath ?v"
    using assms by (simp add: repeatedDepotPath_def templateView_def comp_def)
  ultimately show ?thesis
    unfolding rebuildClient_iff drift_def Let_def v by simp
qed

section \<open>The scenarios of an existing client\<close>

lemma viewMappings_abc: "viewMappings view_lines_abc = Inr view_abc"
  by (simp add: view_lines_abc_def view_abc_def startsWith_def)

lemma no_Owner_abc: "map_of view_lines_abc ''Owner'' = None"
  by (simp add: view_lines_abc_def)

lemma viewMappings_abb: "viewMappings view_lines_abb = Inr view_abb"
  by (simp add: view_lines_abb_def view_abb_def startsWith_def)

lemma no_Owner_abb: "map_of view_lines_abb ''Owner'' = None"
  by (simp add: view_lines_abb_def)

lemma scenario_templateMappings:
  "templateMappings scenario_settings ''T_runner_1'' (view template_client) =
     [(''//depot/a'', ''//T_runner_1/a''), (''//depot/b'', ''//T_runner_1/b'')]"
  by (simp add: templateMappings_def template_client_def namespaced_def js_replace_def
      AList.update_def)

lemma scenario_templateView:
  "templateView scenario_settings (existing_world ow viewEntries) template_client = view_ab"
  by (simp add: templateView_def template_client_def namespaced_def js_replace_def view_ab_def)

lemma scenario_ab_no_rebuild:
  "\<not> rebuildClient scenario_settings (existing_world ow view_lines_ab) template_client
       (existing_client ow view_ab)"
  by (simp add: rebuildClient_def scenario_templateMappings existing_client_def view_ab_def
      AList.delete_eq)

lemma scenario_abc_rebuild:
  "rebuildClient scenario_settings (existing_world ow view_lines_abc) template_client
     (existing_client ow view_abc)"
  by (simp add: rebuildClient_def scenario_templateMappings existing_client_def view_abc_def
      AList.delete_eq)

lemma scenario_abb_rebuild:
  "rebuildClient scenario_settings (existing_world ow view_lines_abb) template_client
     (existing_client ow view_abb)"
  by (simp add: rebuildClient_def scenario_templateMappings existing_client_def view_abb_def
      AList.delete_eq)

lemma scenario_abb_no_drift:
  "\<not> drift scenario_settings (existing_world ow view_lines_abb) template_client
       (existing_client ow view_abb)"
  by (simp add: drift_def scenario_templateMappings existing_client_def view_abb_def
      extraDepotPath_def differentClientPath_def missingDepotPath_def)

lemma scenario_editClient_rebuilt:
  "outcome (editClient (existing_world ow viewEntries)
      (rebuilt scenario_settings (existing_world ow viewEntries) template_client
         (existing_client ow mappings))) = Inr ()"
  by (simp add: existing_world_def rebuilt_def existing_client_def)

lemma scenario_syncK:
  "outcome (syncK (existing_world ow viewEntries) spec) = Inr ()"
  "outcome (sync (existing_world ow viewEntries) spec) = Inr ()"
  "outcome (revert (existing_world ow viewEntries) spec) = Inr ()"
  by (simp_all add: existing_world_def)

lemma scenario_checkout:
  "trace (checkout scenario_settings (existing_world ow viewEntries)) =
     [Exec [''clean'', ''-a'', ''-d'', ''-e'', ''//T_runner_1/...''] [],
      Exec [''sync'', ''//T_runner_1/...@42''] [],
      SetOutput ''commit'' ''@42'']"
  by (simp add: trace_checkout scenario_syncK)

lemma scenario_outcome:
  assumes "viewMappings viewEntries = Inr mappings" "map_of viewEntries ''Owner'' = None"
    "\<not> ownerMismatch (existing_client ow mappings) ''bob''"
  shows "outcome (getSource scenario_settings (existing_world ow viewEntries)) = Inr ()"
proof -
  have f: "\<And>b. outcome (finish scenario_settings (existing_world ow viewEntries) b) = Inr ()"
    by (simp add: outcome_finish outcome_checkout scenario_syncK)
  show ?thesis
    unfolding getSource_existing(2) [OF reaches_existing_scenario [OF assms(1,2)]]
    using assms(3) scenario_editClient_rebuilt [of ow viewEntries mappings]
    by (simp add: checkExisting_def outcome_bind f rebuilt_def)
qed

lemma bob_passes [simp]: "\<not> ownerMismatch (existing_client (Some ''bob'') mappings) (authToken scenario_settings)"
  by (simp add: existing_client_def ownerMismatch_def)

lemma scenario_trace_editClient:
  "trace (editClient (existing_world ow viewEntries)
      (rebuilt scenario_settings (existing_world ow viewEntries) template_client
         (existing_client (Some ''bob'') mappings))) =
   [Exec [''client'', ''-i'']
      (join [CHR 0x0A]
         [''Client:'' @ [CHR 0x09] @ ''T_runner_1'',
          ''Owner:'' @ [CHR 0x09] @ ''bob'',
          ''Host:'' @ [CHR 0x09] @ ''runner-1'',
          ''Description:'',
          [CHR 0x09] @ ''Build template instance for runner-1'',
          ''Root:'' @ [CHR 0x09] @ ''/work/repo'',
          ''Options:'' @ [CHR 0x09] @ ''noallwrite clobber'',
          ''SubmitOptions:'' @ [CHR 0x09] @ ''submitunchanged'',
          ''LineEnd:'' @ [CHR 0x09] @ ''local'',
          ''View:'',
          [CHR 0x09] @ ''//depot/a //T_runner_1/a'',
          [CHR 0x09] @ ''//depot/b //T_runner_1/b''])]"
  by (simp add: trace_editClient clientSpec_def rebuilt_def existing_client_def
      scenario_templateView view_ab_def str_def)

lemma write_in_trace:
  assumes "reaches_existing settings w template existingClient"
    "\<not> ownerMismatch existingClient (authToken settings)"
    "rebuildClient settings w template existingClient"
    "description existingClient = Some d"
  shows "\<exists>input. Exec [''client'', ''-i''] input \<in> set (trace (getSource settings w))"
proof -
  obtain spec where "clientSpec (rebuilt settings w template existingClient) = Inr spec"
    using clientSpec_rebuilt [OF assms(4)] by blast
  then have "Exec [''client'', ''-i''] (join [CHR 0x0A] spec) \<in> set (trace (getSource settings w))"
    using assms(3) by (simp add: getSource_checked [OF assms(1,2)] trace_editClient)
  then show ?thesis ..
qed

lemma undescribed_fetch:
  "outcome (fetchClient undescribed_world ''T_runner_1'') = Inr undescribed_client"
  using viewMappings_abc
  by (simp add: undescribed_world_def fetchClient_def outcome_bind outcome_execP4
      undescribed_existing_def undescribed_client_def startsWith_def view_lines_abc_def)

lemma undescribed_reaches:
  "reaches_existing scenario_settings undescribed_world template_client undescribed_client"
  using undescribed_fetch
  by (simp add: reaches_existing_def undescribed_world_def scenario_version scenario_fetch_template)

lemma undescribed_passes:
  "\<not> ownerMismatch undescribed_client (authToken scenario_settings)"
  by (simp add: undescribed_client_def ownerMismatch_def)

lemma undescribed_rebuild:
  "rebuildClient scenario_settings undescribed_world template_client undescribed_client"
  by (simp add: rebuildClient_def undescribed_world_def scenario_templateMappings
      undescribed_client_def view_abc_def AList.delete_eq)

lemma undescribed_simps:
  "preflight scenario_settings undescribed_world = []"
  "queries scenario_settings undescribed_world =
     [Exec [''-V''] [],
      SetEnvironmentVariable ''P4PORT'' ''ssl:perforce:1666'',
      SetEnvironmentVariable ''P4USER'' ''bob'',
      Exec [''login'', ''-s''] [],
      Exec [''-Mj'', ''-Ztag'', ''client'', ''-o'', ''T''] [],
      Exec [''clients'', ''-e'', ''T_runner_1''] [],
      Exec [''-Mj'', ''-Ztag'', ''client'', ''-o'', ''T_runner_1''] []]"
  by (simp_all add: undescribed_world_def preflight_def queries_def)

lemma undescribed_editClient:
  "editClient w (undescribed_client\<lparr>host := h, root := r, view := v\<rparr>) = throw TypeError"
  by (simp add: editClient_def clientSpec_def undescribed_client_def)

lemma unowned_passes:
  "\<not> ownerMismatch (existing_client None mappings) (authToken scenario_settings)"
  by (simp add: existing_client_def ownerMismatch_def)

section \<open>The version check of the preflight\<close>

lemma takeWhile_digits: "list_all isDigit (takeWhile isDigit s)"
  by (simp add: list_all_iff) (meson set_takeWhileD)

lemma version_at_Some:
  assumes "version_at s = Some m"
  shows "\<exists>d1 d2. m = d1 @ ''.'' @ d2 \<and> d1 \<noteq> [] \<and> d2 \<noteq> []
           \<and> list_all isDigit d1 \<and> list_all isDigit d2"
proof -
  from assms obtain s4 s5 where
    m: "m = takeWhile isDigit s4 @ ''.'' @ takeWhile isDigit s5"
    and ne: "takeWhile isDigit s4 \<noteq> []" "takeWhile isDigit s5 \<noteq> []"
    unfolding version_at_def
    by (auto split: option.splits list.splits if_splits)
  show ?thesis
    using m ne takeWhile_digits by blast
qed

lemma version_search_Some:
  assumes "version_search s = Some m"
  shows "\<exists>d1 d2. m = d1 @ ''.'' @ d2 \<and> d1 \<noteq> [] \<and> d2 \<noteq> []
           \<and> list_all isDigit d1 \<and> list_all isDigit d2"
  using assms
proof (induction s)
  case Nil
  then show ?case by simp
next
  case (Cons c cs)
  show ?case
  proof (cases "version_at (c # cs)")
    case None
    with Cons show ?thesis by simp
  next
    case (Some v)
    with Cons.prems have "version_at (c # cs) = Some m" by simp
    then show ?thesis by (rule version_at_Some)
  qed
qed

lemma version_search_valid:
  assumes "version_search s = Some m"
  shows "isValid (newPerforceVersion (Some m))"
proof -
  from version_search_Some [OF assms] obtain d1 d2 where
    "m = d1 @ ''.'' @ d2" "d1 \<noteq> []" "list_all isDigit d1" "list_all isDigit d2"
    by blast
  then show ?thesis
    unfolding isValid_newPerforceVersion by blast
qed

lemma outcome_initializeCommandManager:
  assumes "exitCode (exec w [''-V''] []) = 0"
  shows "outcome (initializeCommandManager w) =
     (case version_search (stdout (exec w [''-V''] [])) of
        None \<Rightarrow> Inl (Error ''Unable to determine p4 version'')
      | Some m \<Rightarrow> Inr (newPerforceVersion (Some m)))"
proof (cases "version_search (stdout (exec w [''-V''] []))")
  case None
  then show ?thesis
    using assms
    by (simp add: initializeCommandManager_def outcome_bind outcome_execP4 isValid_def
        newPerforceVersion_def)
next
  case (Some m)
  then show ?thesis
    using assms version_search_valid [OF Some]
    by (simp add: initializeCommandManager_def outcome_bind outcome_execP4)
qed

lemma getSource_version_failure:
  assumes "outcome (getPerforceCommandManager settings w) = Inl e"
  shows "outcome (getSource settings w) = Inl e"
    and "trace (getSource settings w) = preflight settings w @ [Exec [''-V''] []]"
  using assms
  by (simp_all add: getSource_def outcome_bind trace_bind preflight_def)

lemma getSource_starts_with_version:
  "\<exists>rest. trace (getSource settings w) = preflight settings w @ Exec [''-V''] [] # rest"
  by (simp add: getSource_def trace_bind preflight_def)

lemma version_search_examples:
  "version_search ''Rev. P4/NTX64/0.0/1 '' = Some ''0.0''"
  "version_search ''P4 version unknown'' = None"
  by (simp_all add: version_at_def strip_prefix_def isWord_def isDigit_def)

section \<open>View lines\<close>

lemma js_split_not_Nil [simp]: "js_split sep s \<noteq> []"
  by (induction s) (auto split: list.splits)

lemma length_js_split: "length (js_split sep s) = Suc (length (filter (\<lambda>c. c = sep) s))"
  by (induction s) (auto split: list.splits)

lemma js_split_no_sep: "sep \<notin> set s \<Longrightarrow> js_split sep s = [s]"
  by (induction s) auto

lemma js_split_append: "sep \<notin> set d \<Longrightarrow> js_split sep (d @ sep # rest) = d # js_split sep rest"
  by (induction d) auto

lemma js_split_two:
  assumes "CHR '' '' \<notin> set d" "CHR '' '' \<notin> set c"
  shows "js_split CHR '' '' (d @ '' '' @ c) = [d, c]"
  using assms by (simp add: js_split_append js_split_no_sep)

lemma oneSpace_iff:
  "oneSpace v \<longleftrightarrow> (\<exists>d c. v = d @ '' '' @ c \<and> CHR '' '' \<notin> set d \<and> CHR '' '' \<notin> set c)"
proof
  assume "oneSpace v"
  then have one: "length (filter (\<lambda>c. c = CHR '' '') v) = 1"
    by (simp add: oneSpace_def)
  define d where "d = takeWhile (\<lambda>c. c \<noteq> CHR '' '') v"
  define r where "r = dropWhile (\<lambda>c. c \<noteq> CHR '' '') v"
  have v: "v = d @ r" and nd: "CHR '' '' \<notin> set d"
    by (auto simp: d_def r_def dest: set_takeWhileD)
  have fd: "filter (\<lambda>c. c = CHR '' '') d = []"
    using nd by (auto simp: filter_empty_conv)
  from one v fd have "r \<noteq> []"
    by auto
  then obtain c where r: "r = CHR '' '' # c"
    using hd_dropWhile [of "\<lambda>c. c \<noteq> CHR '' ''" v]
    by (cases r) (auto simp: r_def)
  from one v fd r have "filter (\<lambda>c. c = CHR '' '') c = []"
    by simp
  then have "CHR '' '' \<notin> set c"
    by (auto simp: filter_empty_conv)
  with v r nd show "\<exists>d c. v = d @ '' '' @ c \<and> CHR '' '' \<notin> set d \<and> CHR '' '' \<notin> set c"
    by auto
next
  assume "\<exists>d c. v = d @ '' '' @ c \<and> CHR '' '' \<notin> set d \<and> CHR '' '' \<notin> set c"
  then obtain d c where "v = d @ '' '' @ c" "CHR '' '' \<notin> set d" "CHR '' '' \<notin> set c"
    by blast
  then show "oneSpace v"
    by (auto simp: oneSpace_def filter_empty_conv)
qed

lemma viewMappings_eq:
  "viewMappings obj =
     (case find (\<lambda>v. \<not> oneSpace v) (viewLines obj) of
        Some v \<Rightarrow> Inl (Error (''Invalid client view '' @ [CHR 0x27] @ v @ [CHR 0x27]))
      | None \<Rightarrow>
          Inr (map (\<lambda>v. \<lparr>depot = js_split CHR '' '' v ! 0, client = js_split CHR '' '' v ! 1\<rparr>)
                 (viewLines obj)))"
proof (induction obj)
  case Nil
  show ?case by (simp add: viewLines_def)
next
  case (Cons entry rest)
  obtain key v where entry: "entry = (key, v)"
    by (cases entry)
  have two: "length (js_split CHR '' '' v) \<noteq> 2 \<longleftrightarrow> \<not> oneSpace v"
    by (simp add: length_js_split oneSpace_def)
  show ?case
  proof (cases "startsWith key ''View''")
    case False
    then have lines: "viewLines ((key, v) # rest) = viewLines rest"
      by (simp add: viewLines_def)
    show ?thesis
      unfolding entry lines viewMappings.simps using False Cons.IH by simp
  next
    case True
    then have lines: "viewLines ((key, v) # rest) = v # viewLines rest"
      by (simp add: viewLines_def)
    show ?thesis
      unfolding entry lines viewMappings.simps Let_def Cons.IH
      using True two by (simp split: option.splits)
  qed
qed

lemma outcome_fetchClient:
  assumes "exitCode (exec w [''-Mj'', ''-Ztag'', ''client'', ''-o'', nm] []) = 0"
    "JSON_parse w (stdout (exec w [''-Mj'', ''-Ztag'', ''client'', ''-o'', nm] [])) = Some obj"
  shows "outcome (fetchClient w nm) =
     (case find (\<lambda>v. \<not> oneSpace v) (viewLines obj) of
        Some v \<Rightarrow> Inl (Error (''Invalid client view '' @ [CHR 0x27] @ v @ [CHR 0x27]))
      | None \<Rightarrow>
          Inr \<lparr>host = map_of obj ''Host'',
               name = map_of obj ''Client'',
               description = map_of obj ''Description'',
               options = map_of obj ''Options'',
               submitOptions = map_of obj ''SubmitOptions'',
               lineEnd = map_of obj ''LineEnd'',
               owner = map_of obj ''Owner'',
               root = map_of obj ''Root'',
               view = map (\<lambda>v. \<lparr>depot = js_split CHR '' '' v ! 0,
                                  client = js_split CHR '' '' v ! 1\<rparr>) (viewLines obj)\<rparr>)"
  using assms
  by (simp add: fetchClient_def outcome_bind outcome_execP4 viewMappings_eq split: option.splits)

lemma getSource_template_failure:
  assumes "\<not> isl (outcome (getPerforceCommandManager settings w))"
    "outcome (verifyLogin w) = Inr ()"
    "outcome (fetchClient w (clientTemplate settings)) = Inl e"
  shows "outcome (getSource settings w) = Inl e"
proof -
  from assms(1) obtain v where v: "outcome (getPerforceCommandManager settings w) = Inr v"
    by (cases "outcome (getPerforceCommandManager settings w)") auto
  show ?thesis
    using assms(2,3) v by (simp add: getSource_def outcome_bind io_catch_throw)
qed

lemma getSource_existing_failure:
  assumes "\<not> isl (outcome (getPerforceCommandManager settings w))"
    "outcome (verifyLogin w) = Inr ()"
    "outcome (fetchClient w (clientTemplate settings)) = Inr template"
    "outcome (clientExists w (clientName settings w)) = Inr True"
    "outcome (fetchClient w (clientName settings w)) = Inl e"
  shows "outcome (getSource settings w) = Inl e"
proof -
  from assms(1) obtain v where v: "outcome (getPerforceCommandManager settings w) = Inr v"
    by (cases "outcome (getPerforceCommandManager settings w)") auto
  show ?thesis
    using assms(2-5) v
    by (simp add: getSource_def existingBranch_def outcome_bind io_catch_throw)
qed

section \<open>The resolved client name\<close>

lemma find_first_char:
  "find_first [c] s =
     (if c \<in> set s
      then Some (takeWhile (\<lambda>x. x \<noteq> c) s, tl (dropWhile (\<lambda>x. x \<noteq> c) s))
      else None)"
  by (induction s) auto

text \<open>What \<^verbatim>\<open>replace('-', '_')\<close> does to a host name: the first hyphen, and no other, becomes an underscore.\<close>

lemma replace_hyphen:
  "js_replace hn ''-'' ''_'' =
     (if CHR ''-'' \<in> set hn
      then takeWhile (\<lambda>x. x \<noteq> CHR ''-'') hn @ ''_'' @ tl (dropWhile (\<lambda>x. x \<noteq> CHR ''-'') hn)
      else hn)"
  by (simp add: js_replace_def find_first_char)

section \<open>The claims\<close>

subsection \<open>C1: the version check of the preflight\<close>

text \<open>
  C1, as stated, at a \<^verbatim>\<open>p4\<close> that reports version 0.0: the version is below every
  minimum that any valid version fails to meet (below 0.1 for one), and the run
  completes. No minimum is enforced: for every valid minimum that some valid version
  fails, there is an output of \<^verbatim>\<open>p4 -V\<close> that the initialization accepts with a version
  below that minimum.
\<close>

theorem C1_version_below_any_minimum_passes:
  "outcome (getPerforceCommandManager scenario_settings old_p4_world)
     = Inr \<lparr>major = Num 0, minor = Num 0\<rparr>
   \<and> checkMinimum \<lparr>major = Num 0, minor = Num 0\<rparr> (newPerforceVersion (Some ''0.1'')) = Inr False
   \<and> outcome (getSource scenario_settings old_p4_world) = Inr ()
   \<and> \<not> (\<exists>minimum. isValid minimum
           \<and> (\<exists>v. isValid v \<and> checkMinimum v minimum = Inr False)
           \<and> (\<forall>w v. outcome (initializeCommandManager w) = Inr v
                 \<longrightarrow> checkMinimum v minimum = Inr True))"
proof -
  have v: "outcome (getPerforceCommandManager scenario_settings old_p4_world)
             = Inr \<lparr>major = Num 0, minor = Num 0\<rparr>"
    by (simp add: old_p4_world_def getPerforceCommandManager_def outcome_initializeCommandManager
        version_search_examples newPerforceVersion_def version_match_def isDigit_def Number_def
        decimal_def Let_def del: version_search.simps)
  have c: "checkMinimum \<lparr>major = Num 0, minor = Num 0\<rparr> (newPerforceVersion (Some ''0.1'')) = Inr False"
    by (simp add: checkMinimum_def isValid_def newPerforceVersion_def version_match_def
        isDigit_def Number_def decimal_def Let_def)
  have f: "outcome (fetchClient old_p4_world ''T_runner_1'') = Inr (existing_client (Some ''bob'') view_ab)"
    by (simp add: old_p4_world_def fetchClient_def outcome_bind outcome_execP4
      scenario_existing_def existing_client_def startsWith_def view_lines_ab_def view_ab_def)
  have r: "reaches_existing scenario_settings old_p4_world template_client
             (existing_client (Some ''bob'') view_ab)"
    using v f by (simp add: reaches_existing_def old_p4_world_def scenario_fetch_template)
  have n: "\<not> rebuildClient scenario_settings old_p4_world template_client
               (existing_client (Some ''bob'') view_ab)"
    by (simp add: rebuildClient_def old_p4_world_def scenario_templateMappings
        existing_client_def view_ab_def AList.delete_eq)
  have g: "outcome (getSource scenario_settings old_p4_world) = Inr ()"
    unfolding getSource_existing(2) [OF r]
    using n
    by (simp add: checkExisting_def outcome_bind outcome_finish outcome_checkout old_p4_world_def
        existing_client_def ownerMismatch_def)
  have "\<not> (\<exists>minimum. isValid minimum
           \<and> (\<exists>v. isValid v \<and> checkMinimum v minimum = Inr False)
           \<and> (\<forall>w v. outcome (initializeCommandManager w) = Inr v
                 \<longrightarrow> checkMinimum v minimum = Inr True))"
  proof
    assume "\<exists>minimum. isValid minimum
           \<and> (\<exists>v. isValid v \<and> checkMinimum v minimum = Inr False)
           \<and> (\<forall>w v. outcome (initializeCommandManager w) = Inr v
                 \<longrightarrow> checkMinimum v minimum = Inr True)"
    then obtain minimum u where m: "isValid minimum" and u: "isValid u"
      "checkMinimum u minimum = Inr False"
      and all: "\<forall>w v. outcome (initializeCommandManager w) = Inr v
                 \<longrightarrow> checkMinimum v minimum = Inr True"
      by blast
    from v all have t: "checkMinimum \<lparr>major = Num 0, minor = Num 0\<rparr> minimum = Inr True"
      by (simp add: getPerforceCommandManager_def)
    obtain a1 a2 where a: "major u = a1" "minor u = a2" by simp
    obtain b1 b2 where b: "major minimum = b1" "minor minimum = b2" by simp
    from m u t show False
      unfolding checkMinimum_def isValid_def a b
      by (cases a1; cases b1; cases a2; cases b2) (auto split: if_splits)
  qed
  with v c g show ?thesis by blast
qed

text \<open>
  C1, amended. During preflight \<^verbatim>\<open>getSource\<close> asks \<^verbatim>\<open>p4 -V\<close> for the version, first of all
  commands. When the command succeeds, the initialization fails with
  \<^verbatim>\<open>Unable to determine p4 version\<close> exactly when no version of the form digits, dot,
  digits can be read from the output, and otherwise yields the version read, whatever its
  value: it is compared with no minimum. A failure of the initialization is the failure
  of the whole operation, with nothing done after the version command.
\<close>

theorem C1_version_preflight:
  "(exitCode (exec w [''-V''] []) = 0 \<longrightarrow>
      outcome (initializeCommandManager w) =
        (case version_search (stdout (exec w [''-V''] [])) of
           None \<Rightarrow> Inl (Error ''Unable to determine p4 version'')
         | Some m \<Rightarrow> Inr (newPerforceVersion (Some m))))
   \<and> (version_search out = Some m \<longrightarrow>
        isValid (newPerforceVersion (Some m))
        \<and> (\<exists>d1 d2. m = d1 @ ''.'' @ d2 \<and> d1 \<noteq> [] \<and> d2 \<noteq> []
              \<and> list_all isDigit d1 \<and> list_all isDigit d2))
   \<and> (outcome (getPerforceCommandManager settings w) = Inl e \<longrightarrow>
        outcome (getSource settings w) = Inl e
        \<and> trace (getSource settings w) = preflight settings w @ [Exec [''-V''] []])
   \<and> (\<exists>rest. trace (getSource settings w) = preflight settings w @ Exec [''-V''] [] # rest)"
  using outcome_initializeCommandManager [of w] version_search_valid [of out m]
    version_search_Some [of out m] getSource_version_failure [of settings w e]
    getSource_starts_with_version [of settings w]
  by blast

text \<open>
  A \<^verbatim>\<open>p4\<close> that reports 0.0 is accepted with that version; an output with no version in it
  fails the whole run after the version command.
\<close>

theorem C1_version_preflight_witness:
  "outcome (initializeCommandManager old_p4_world) = Inr (newPerforceVersion (Some ''0.0''))
   \<and> isValid (newPerforceVersion (Some ''0.0''))
   \<and> outcome (getSource scenario_settings
        (scenario_world ''P4 version unknown'' ''runner-1'' scenario_template None))
       = Inl (Error ''Unable to determine p4 version'')
   \<and> trace (getSource scenario_settings
        (scenario_world ''P4 version unknown'' ''runner-1'' scenario_template None))
       = [Exec [''-V''] []]"
proof -
  let ?w = "scenario_world ''P4 version unknown'' ''runner-1'' scenario_template None"
  note old = C1_version_preflight
    [of old_p4_world "''Rev. P4/NTX64/0.0/1 ''" "''0.0''" scenario_settings
      "Error ''Unable to determine p4 version''"]
  note unknown = C1_version_preflight
    [of ?w "''P4 version unknown''" "''0.0''" scenario_settings
      "Error ''Unable to determine p4 version''"]
  have 1: "outcome (initializeCommandManager old_p4_world) = Inr (newPerforceVersion (Some ''0.0''))"
    using old [THEN conjunct1]
    by (simp add: old_p4_world_def version_search_examples del: version_search.simps)
  have 2: "isValid (newPerforceVersion (Some ''0.0''))"
    using old [THEN conjunct2, THEN conjunct1]
    by (simp add: version_search_examples del: version_search.simps)
  have "outcome (getPerforceCommandManager scenario_settings ?w)
          = Inl (Error ''Unable to determine p4 version'')"
    using unknown [THEN conjunct1]
    by (simp add: getPerforceCommandManager_def version_search_examples
        del: version_search.simps)
  with unknown [THEN conjunct2, THEN conjunct2, THEN conjunct1]
  have 3: "outcome (getSource scenario_settings ?w) = Inl (Error ''Unable to determine p4 version'')
     \<and> trace (getSource scenario_settings ?w) = preflight scenario_settings ?w @ [Exec [''-V''] []]"
    by (rule mp)
  from 1 2 3 show ?thesis
    by (simp add: preflight_def)
qed

subsection \<open>C2: the owner of an existing definition\<close>

text \<open>
  C2, as stated, at an existing definition whose owner is the empty string, and at one
  with no owner at all, for the identity \<^verbatim>\<open>bob\<close>: the owner differs from the identity,
  the check lets the definition pass, and the run completes.
\<close>

theorem C2_unowned_client_passes:
  "outcome (fetchClient (existing_world (Some []) view_lines_ab) ''T_runner_1'')
     = Inr (existing_client (Some []) view_ab)
   \<and> owner (existing_client (Some []) view_ab) \<noteq> Some (authToken scenario_settings)
   \<and> outcome (getSource scenario_settings (existing_world (Some []) view_lines_ab)) = Inr ()
   \<and> outcome (fetchClient (existing_world None view_lines_ab) ''T_runner_1'')
     = Inr (existing_client None view_ab)
   \<and> owner (existing_client None view_ab) \<noteq> Some (authToken scenario_settings)
   \<and> outcome (getSource scenario_settings (existing_world None view_lines_ab)) = Inr ()"
  using scenario_fetch_existing [OF viewMappings_ab no_Owner_ab, of "Some []"]
    scenario_fetch_existing [OF viewMappings_ab no_Owner_ab, of None]
    scenario_outcome [OF viewMappings_ab no_Owner_ab, of "Some []"]
    scenario_outcome [OF viewMappings_ab no_Owner_ab, of None]
  by (simp add: existing_client_def ownerMismatch_def)

text \<open>
  C2, amended. For every existing workspace definition whose owner is set, not empty
  and different from the authenticated identity, \<^verbatim>\<open>getSource\<close> fails having done nothing
  but prepare the root directory and run the queries (no definition is written, nothing
  is purged, restored or synced), and the message of the failure contains the owner and
  the identity. A definition whose owner is absent, empty or the identity passes the
  check: whatever the run does next, it does not fail with an \<^verbatim>\<open>Error\<close>.
\<close>

theorem C2_owner_conflict:
  assumes "reaches_existing settings w template existingClient"
  shows "(\<forall>ow. owner existingClient = Some ow \<and> ow \<noteq> [] \<and> ow \<noteq> authToken settings \<longrightarrow>
            trace (getSource settings w) = preflight settings w @ queries settings w
            \<and> outcome (getSource settings w) =
                Inl (Error (''Client owner does not match, aborting. '' @ ow @ '' != ''
                            @ authToken settings))
            \<and> sublist ow (''Client owner does not match, aborting. '' @ ow @ '' != ''
                            @ authToken settings)
            \<and> sublist (authToken settings)
                 (''Client owner does not match, aborting. '' @ ow @ '' != '' @ authToken settings))
       \<and> (owner existingClient = None \<or> owner existingClient = Some []
            \<or> owner existingClient = Some (authToken settings) \<longrightarrow>
            (\<forall>detail. outcome (getSource settings w) \<noteq> Inl (Error detail)))"
proof (intro conjI allI impI)
  fix ow
  assume o: "owner existingClient = Some ow \<and> ow \<noteq> [] \<and> ow \<noteq> authToken settings"
  then have m: "ownerMismatch existingClient (authToken settings)"
    by (simp add: ownerMismatch_def)
  show "trace (getSource settings w) = preflight settings w @ queries settings w"
    using m by (simp add: getSource_existing [OF assms] checkExisting_def trace_bind)
  show "outcome (getSource settings w) =
          Inl (Error (''Client owner does not match, aborting. '' @ ow @ '' != ''
                      @ authToken settings))"
    using m o by (simp add: getSource_existing [OF assms] checkExisting_def outcome_bind str_def)
  have "sublist ow ((''Client owner does not match, aborting. '') @ ow @ ('' != '' @ authToken settings))"
    by (rule sublist_appendI)
  then show "sublist ow (''Client owner does not match, aborting. '' @ ow @ '' != ''
                            @ authToken settings)"
    by simp
  have "sublist (authToken settings)
          ((''Client owner does not match, aborting. '' @ ow @ '' != '') @ authToken settings)"
    by (rule sublist_append_leftI)
  then show "sublist (authToken settings)
          (''Client owner does not match, aborting. '' @ ow @ '' != '' @ authToken settings)"
    by simp
next
  fix detail
  assume "owner existingClient = None \<or> owner existingClient = Some []
            \<or> owner existingClient = Some (authToken settings)"
  then have "\<not> ownerMismatch existingClient (authToken settings)"
    by (auto simp: ownerMismatch_def)
  then show "outcome (getSource settings w) \<noteq> Inl (Error detail)"
    by (simp add: getSource_existing [OF assms] not_Error_checkExisting)
qed

text \<open>
  The existing client is owned by \<^verbatim>\<open>alice\<close> and the identity is \<^verbatim>\<open>bob\<close>: the run stops after the
  queries and the message names both; owned by \<^verbatim>\<open>bob\<close>, it passes the check.
\<close>

theorem C2_owner_conflict_witness:
  "trace (getSource scenario_settings (existing_world (Some ''alice'') view_lines_ab)) =
     [Exec [''-V''] [],
      SetEnvironmentVariable ''P4PORT'' ''ssl:perforce:1666'',
      SetEnvironmentVariable ''P4USER'' ''bob'',
      Exec [''login'', ''-s''] [],
      Exec [''-Mj'', ''-Ztag'', ''client'', ''-o'', ''T''] [],
      Exec [''clients'', ''-e'', ''T_runner_1''] [],
      Exec [''-Mj'', ''-Ztag'', ''client'', ''-o'', ''T_runner_1''] []]
   \<and> outcome (getSource scenario_settings (existing_world (Some ''alice'') view_lines_ab)) =
       Inl (Error ''Client owner does not match, aborting. alice != bob'')
   \<and> sublist ''alice'' ''Client owner does not match, aborting. alice != bob''
   \<and> sublist ''bob'' ''Client owner does not match, aborting. alice != bob''
   \<and> outcome (getSource scenario_settings (existing_world (Some ''bob'') view_lines_ab))
       \<noteq> Inl (Error ''Client owner does not match, aborting. bob != bob'')"
proof -
  note a = C2_owner_conflict [OF reaches_existing_scenario [OF viewMappings_ab no_Owner_ab, of "Some ''alice''"]]
  note b = C2_owner_conflict [OF reaches_existing_scenario [OF viewMappings_ab no_Owner_ab, of "Some ''bob''"]]
  have "owner (existing_client (Some ''alice'') view_ab) = Some ''alice'' \<and> ''alice'' \<noteq> []
          \<and> ''alice'' \<noteq> authToken scenario_settings"
    by (simp add: existing_client_def)
  with a [THEN conjunct1, THEN spec, of "''alice''"] have 1:
    "trace (getSource scenario_settings (existing_world (Some ''alice'') view_lines_ab)) =
       preflight scenario_settings (existing_world (Some ''alice'') view_lines_ab)
       @ queries scenario_settings (existing_world (Some ''alice'') view_lines_ab)
     \<and> outcome (getSource scenario_settings (existing_world (Some ''alice'') view_lines_ab)) =
         Inl (Error (''Client owner does not match, aborting. '' @ ''alice'' @ '' != ''
                     @ authToken scenario_settings))
     \<and> sublist ''alice'' (''Client owner does not match, aborting. '' @ ''alice'' @ '' != ''
                     @ authToken scenario_settings)
     \<and> sublist (authToken scenario_settings)
         (''Client owner does not match, aborting. '' @ ''alice'' @ '' != ''
                     @ authToken scenario_settings)"
    by (rule mp)
  have "owner (existing_client (Some ''bob'') view_ab) = None
          \<or> owner (existing_client (Some ''bob'') view_ab) = Some []
          \<or> owner (existing_client (Some ''bob'') view_ab) = Some (authToken scenario_settings)"
    by (simp add: existing_client_def)
  with b [THEN conjunct2] have 2:
    "\<forall>detail. outcome (getSource scenario_settings (existing_world (Some ''bob'') view_lines_ab))
        \<noteq> Inl (Error detail)"
    by (rule mp)
  from 1 2 show ?thesis by simp
qed

subsection \<open>C3: rebuild if and only if drift\<close>

text \<open>
  C3, as stated, at an existing view that lists the mapping of \<^verbatim>\<open>//depot/b\<close> twice, with
  the host and the root as they should be: none of the five drift conditions of the
  specification holds, and yet the code rebuilds and writes the definition back.
\<close>

theorem C3_repeated_depot_path_rebuilds:
  "outcome (fetchClient (existing_world (Some ''bob'') view_lines_abb) ''T_runner_1'')
     = Inr (existing_client (Some ''bob'') view_abb)
   \<and> \<not> drift scenario_settings (existing_world (Some ''bob'') view_lines_abb) template_client
         (existing_client (Some ''bob'') view_abb)
   \<and> rebuildClient scenario_settings (existing_world (Some ''bob'') view_lines_abb) template_client
         (existing_client (Some ''bob'') view_abb)
   \<and> (\<exists>input. Exec [''client'', ''-i''] input
         \<in> set (trace (getSource scenario_settings (existing_world (Some ''bob'') view_lines_abb))))"
proof -
  have d: "description (existing_client (Some ''bob'') view_abb)
             = Some ''Build template instance for runner-1''"
    by (simp add: existing_client_def)
  note write_in_trace
    [OF reaches_existing_scenario [OF viewMappings_abb no_Owner_abb, of "Some ''bob''"]
      bob_passes scenario_abb_rebuild d]
  then show ?thesis
    using scenario_fetch_existing [OF viewMappings_abb no_Owner_abb, of "Some ''bob''"]
    by (simp add: scenario_abb_no_drift scenario_abb_rebuild)
qed

text \<open>
  C3, amended. When an existing workspace definition is found and passes the owner
  check, the code decides to rebuild it if and only if one of six conditions holds: the
  five of the specification (an extra depot path, a depot path with a different
  substituted client path, a depot path missing relative to the dictionary of the
  namespace-normalized template, a host mismatch, a root mismatch) or a depot path listed
  more than once in the existing view. When none holds the run pipes no definition into
  \<^verbatim>\<open>p4 client -i\<close> at all. When one holds and the definition has a description, the
  write of the rebuilt definition is the first action after the queries. The definition
  a rebuild writes back, checked again against an unchanged template that lists no depot
  path twice, shows none of the six conditions.
\<close>

theorem C3_rebuild_iff_drift:
  assumes "reaches_existing settings w template existingClient"
    "\<not> ownerMismatch existingClient (authToken settings)"
  shows "(rebuildClient settings w template existingClient \<longleftrightarrow>
            drift settings w template existingClient \<or> repeatedDepotPath (view existingClient))
       \<and> (\<not> (drift settings w template existingClient \<or> repeatedDepotPath (view existingClient))
            \<longrightarrow> (\<forall>input. Exec [''client'', ''-i''] input \<notin> set (trace (getSource settings w))))
       \<and> ((drift settings w template existingClient \<or> repeatedDepotPath (view existingClient))
            \<and> description existingClient \<noteq> None \<longrightarrow>
            (\<exists>input rest. trace (getSource settings w) =
               preflight settings w @ queries settings w @ Exec [''client'', ''-i''] input # rest
               \<and> trace (editClient w (rebuilt settings w template existingClient))
                   = [Exec [''client'', ''-i''] input]))
       \<and> (distinct (map depot (view template)) \<longrightarrow>
            \<not> (drift settings w template (rebuilt settings w template existingClient)
               \<or> repeatedDepotPath (view (rebuilt settings w template existingClient))))"
proof (intro conjI impI allI)
  show "rebuildClient settings w template existingClient \<longleftrightarrow>
          drift settings w template existingClient \<or> repeatedDepotPath (view existingClient)"
    by (rule rebuildClient_iff)
next
  fix input
  assume "\<not> (drift settings w template existingClient \<or> repeatedDepotPath (view existingClient))"
  then have n: "\<not> rebuildClient settings w template existingClient"
    by (simp add: rebuildClient_iff)
  have "Exec [''client'', ''-i''] input \<notin> set (preflight settings w)"
    by (simp add: preflight_def)
  moreover have "Exec [''client'', ''-i''] input \<notin> set (queries settings w)"
    by (simp add: queries_def)
  moreover have "Exec [''client'', ''-i''] input \<notin> set (trace (finish settings w False))"
    by (simp add: trace_finish trace_checkout)
  ultimately show "Exec [''client'', ''-i''] input \<notin> set (trace (getSource settings w))"
    using n by (simp add: getSource_checked [OF assms])
next
  assume a: "(drift settings w template existingClient \<or> repeatedDepotPath (view existingClient))
            \<and> description existingClient \<noteq> None"
  then have r: "rebuildClient settings w template existingClient"
    by (simp add: rebuildClient_iff)
  from a obtain d where d: "description existingClient = Some d"
    by auto
  show "\<exists>input rest. trace (getSource settings w) =
               preflight settings w @ queries settings w @ Exec [''client'', ''-i''] input # rest
               \<and> trace (editClient w (rebuilt settings w template existingClient))
                   = [Exec [''client'', ''-i''] input]"
    unfolding getSource_checked [OF assms] trace_editClient clientSpec_rebuilt [OF d]
    using r by simp
next
  assume "distinct (map depot (view template))"
  then show "\<not> (drift settings w template (rebuilt settings w template existingClient)
               \<or> repeatedDepotPath (view (rebuilt settings w template existingClient)))"
    using rebuilt_no_drift [of template settings w existingClient]
    by (simp add: rebuildClient_iff)
qed

text \<open>
  An existing view equal to the normalized template is not rebuilt and nothing is written;
  with the extra mapping of \<^verbatim>\<open>//depot/c\<close> it is rebuilt, the write follows the queries, and the
  definition written shows no drift.
\<close>

theorem C3_rebuild_iff_drift_witness:
  "\<not> rebuildClient scenario_settings (existing_world (Some ''bob'') view_lines_ab) template_client
       (existing_client (Some ''bob'') view_ab)
   \<and> (\<forall>input. Exec [''client'', ''-i''] input
         \<notin> set (trace (getSource scenario_settings (existing_world (Some ''bob'') view_lines_ab))))
   \<and> rebuildClient scenario_settings (existing_world (Some ''bob'') view_lines_abc) template_client
       (existing_client (Some ''bob'') view_abc)
   \<and> (\<exists>input rest.
         trace (getSource scenario_settings (existing_world (Some ''bob'') view_lines_abc)) =
           [Exec [''-V''] [],
            SetEnvironmentVariable ''P4PORT'' ''ssl:perforce:1666'',
            SetEnvironmentVariable ''P4USER'' ''bob'',
            Exec [''login'', ''-s''] [],
            Exec [''-Mj'', ''-Ztag'', ''client'', ''-o'', ''T''] [],
            Exec [''clients'', ''-e'', ''T_runner_1''] [],
            Exec [''-Mj'', ''-Ztag'', ''client'', ''-o'', ''T_runner_1''] [],
            Exec [''client'', ''-i''] input] @ rest)
   \<and> \<not> rebuildClient scenario_settings (existing_world (Some ''bob'') view_lines_abc)
         template_client
         (rebuilt scenario_settings (existing_world (Some ''bob'') view_lines_abc) template_client
            (existing_client (Some ''bob'') view_abc))"
proof -
  note same = C3_rebuild_iff_drift
    [OF reaches_existing_scenario [OF viewMappings_ab no_Owner_ab, of "Some ''bob''"] bob_passes]
  note drifted = C3_rebuild_iff_drift
    [OF reaches_existing_scenario [OF viewMappings_abc no_Owner_abc, of "Some ''bob''"] bob_passes]
  have 1: "\<not> (drift scenario_settings (existing_world (Some ''bob'') view_lines_ab) template_client
               (existing_client (Some ''bob'') view_ab)
            \<or> repeatedDepotPath (view (existing_client (Some ''bob'') view_ab)))"
    using same [THEN conjunct1] scenario_ab_no_rebuild [of "Some ''bob''"] by simp
  have 2: "(drift scenario_settings (existing_world (Some ''bob'') view_lines_abc) template_client
               (existing_client (Some ''bob'') view_abc)
            \<or> repeatedDepotPath (view (existing_client (Some ''bob'') view_abc)))
          \<and> description (existing_client (Some ''bob'') view_abc) \<noteq> None"
    using drifted [THEN conjunct1] scenario_abc_rebuild [of "Some ''bob''"]
    by (simp add: existing_client_def)
  have 3: "distinct (map depot (view template_client))"
    by (simp add: template_client_def)
  have 4: "\<not> rebuildClient scenario_settings (existing_world (Some ''bob'') view_lines_abc)
         template_client
         (rebuilt scenario_settings (existing_world (Some ''bob'') view_lines_abc) template_client
            (existing_client (Some ''bob'') view_abc))"
    using drifted [THEN conjunct2, THEN conjunct2, THEN conjunct2, THEN mp, OF 3]
    by (simp add: rebuildClient_iff)
  from drifted [THEN conjunct2, THEN conjunct2, THEN conjunct1, THEN mp, OF 2]
  obtain input rest where
    "trace (getSource scenario_settings (existing_world (Some ''bob'') view_lines_abc)) =
       preflight scenario_settings (existing_world (Some ''bob'') view_lines_abc)
       @ queries scenario_settings (existing_world (Some ''bob'') view_lines_abc)
       @ Exec [''client'', ''-i''] input # rest"
    by blast
  then have 5: "\<exists>input rest.
         trace (getSource scenario_settings (existing_world (Some ''bob'') view_lines_abc)) =
           [Exec [''-V''] [],
            SetEnvironmentVariable ''P4PORT'' ''ssl:perforce:1666'',
            SetEnvironmentVariable ''P4USER'' ''bob'',
            Exec [''login'', ''-s''] [],
            Exec [''-Mj'', ''-Ztag'', ''client'', ''-o'', ''T''] [],
            Exec [''clients'', ''-e'', ''T_runner_1''] [],
            Exec [''-Mj'', ''-Ztag'', ''client'', ''-o'', ''T_runner_1''] [],
            Exec [''client'', ''-i''] input] @ rest"
    by simp
  from same [THEN conjunct2, THEN conjunct1, THEN mp, OF 1]
    scenario_ab_no_rebuild [of "Some ''bob''"] scenario_abc_rebuild [of "Some ''bob''"] 4 5
  show ?thesis
    by (intro conjI)
qed

subsection \<open>C4: the order of the purge\<close>

text \<open>
  C4. When drift is detected in an existing definition and the rebuild is performed
  (the write succeeds), the run continues with the activation of the client and the
  sync-to-none call, and only then, if that call succeeds, removes and recreates the root
  directory; when no drift is detected in an existing definition, the run goes from the
  queries straight to the activation and the restore. Neither the queries, nor the write,
  nor the steps from the restore on remove or create a directory or sync to none. (What
  stands before the queries is the preparation of the root path at the start of every
  run: a file in its place is removed and the directory created if it is not there.)
\<close>

theorem C4_purge_order:
  assumes "reaches_existing settings w template existingClient"
    "\<not> ownerMismatch existingClient (authToken settings)"
  shows "(rebuildClient settings w template existingClient
          \<and> outcome (editClient w (rebuilt settings w template existingClient)) = Inr () \<longrightarrow>
          trace (getSource settings w) =
            preflight settings w @ queries settings w
            @ trace (editClient w (rebuilt settings w template existingClient))
            @ [SetEnvironmentVariable ''P4CLIENT'' (clientName settings w),
               Exec [''sync'', ''-k'', ''//'' @ clientName settings w @ ''/...#none''] []]
            @ (if outcome (syncK w (''//'' @ clientName settings w @ ''/...#none'')) = Inr ()
               then [RmRF (repositoryPath settings), MkdirP (repositoryPath settings)]
                    @ trace (checkout settings w)
               else []))
       \<and> (\<not> rebuildClient settings w template existingClient \<longrightarrow>
          trace (getSource settings w) =
            preflight settings w @ queries settings w
            @ [SetEnvironmentVariable ''P4CLIENT'' (clientName settings w)]
            @ trace (checkout settings w))
       \<and> (\<forall>a \<in> set (queries settings w
                      @ trace (editClient w (rebuilt settings w template existingClient))
                      @ trace (checkout settings w)).
            (\<forall>p. a \<noteq> RmRF p \<and> a \<noteq> MkdirP p)
            \<and> a \<noteq> Exec [''sync'', ''-k'', ''//'' @ clientName settings w @ ''/...#none''] [])"
proof (intro conjI impI)
  assume "rebuildClient settings w template existingClient
          \<and> outcome (editClient w (rebuilt settings w template existingClient)) = Inr ()"
  then show "trace (getSource settings w) =
            preflight settings w @ queries settings w
            @ trace (editClient w (rebuilt settings w template existingClient))
            @ [SetEnvironmentVariable ''P4CLIENT'' (clientName settings w),
               Exec [''sync'', ''-k'', ''//'' @ clientName settings w @ ''/...#none''] []]
            @ (if outcome (syncK w (''//'' @ clientName settings w @ ''/...#none'')) = Inr ()
               then [RmRF (repositoryPath settings), MkdirP (repositoryPath settings)]
                    @ trace (checkout settings w)
               else [])"
    by (simp add: getSource_checked [OF assms] trace_finish)
next
  assume "\<not> rebuildClient settings w template existingClient"
  then show "trace (getSource settings w) =
            preflight settings w @ queries settings w
            @ [SetEnvironmentVariable ''P4CLIENT'' (clientName settings w)]
            @ trace (checkout settings w)"
    by (simp add: getSource_checked [OF assms] trace_finish)
next
  show "\<forall>a \<in> set (queries settings w
                      @ trace (editClient w (rebuilt settings w template existingClient))
                      @ trace (checkout settings w)).
            (\<forall>p. a \<noteq> RmRF p \<and> a \<noteq> MkdirP p)
            \<and> a \<noteq> Exec [''sync'', ''-k'', ''//'' @ clientName settings w @ ''/...#none''] []"
    by (auto simp: queries_def trace_editClient trace_checkout split: sum.splits if_splits)
qed

text \<open>
  The run with the extra mapping of \<^verbatim>\<open>//depot/c\<close>, and the run with nothing to rebuild.
\<close>

theorem C4_purge_order_witness:
  "trace (getSource scenario_settings (existing_world (Some ''bob'') view_lines_abc)) =
     [Exec [''-V''] [],
      SetEnvironmentVariable ''P4PORT'' ''ssl:perforce:1666'',
      SetEnvironmentVariable ''P4USER'' ''bob'',
      Exec [''login'', ''-s''] [],
      Exec [''-Mj'', ''-Ztag'', ''client'', ''-o'', ''T''] [],
      Exec [''clients'', ''-e'', ''T_runner_1''] [],
      Exec [''-Mj'', ''-Ztag'', ''client'', ''-o'', ''T_runner_1''] []]
     @ trace (editClient (existing_world (Some ''bob'') view_lines_abc)
         (rebuilt scenario_settings (existing_world (Some ''bob'') view_lines_abc) template_client
            (existing_client (Some ''bob'') view_abc)))
     @ [SetEnvironmentVariable ''P4CLIENT'' ''T_runner_1'',
        Exec [''sync'', ''-k'', ''//T_runner_1/...#none''] [],
        RmRF ''/work/repo'',
        MkdirP ''/work/repo'',
        Exec [''clean'', ''-a'', ''-d'', ''-e'', ''//T_runner_1/...''] [],
        Exec [''sync'', ''//T_runner_1/...@42''] [],
        SetOutput ''commit'' ''@42'']
   \<and> trace (getSource scenario_settings (existing_world (Some ''bob'') view_lines_ab)) =
     [Exec [''-V''] [],
      SetEnvironmentVariable ''P4PORT'' ''ssl:perforce:1666'',
      SetEnvironmentVariable ''P4USER'' ''bob'',
      Exec [''login'', ''-s''] [],
      Exec [''-Mj'', ''-Ztag'', ''client'', ''-o'', ''T''] [],
      Exec [''clients'', ''-e'', ''T_runner_1''] [],
      Exec [''-Mj'', ''-Ztag'', ''client'', ''-o'', ''T_runner_1''] [],
      SetEnvironmentVariable ''P4CLIENT'' ''T_runner_1'',
      Exec [''clean'', ''-a'', ''-d'', ''-e'', ''//T_runner_1/...''] [],
      Exec [''sync'', ''//T_runner_1/...@42''] [],
      SetOutput ''commit'' ''@42'']"
proof -
  note drifted = C4_purge_order
    [OF reaches_existing_scenario [OF viewMappings_abc no_Owner_abc, of "Some ''bob''"] bob_passes]
  note same = C4_purge_order
    [OF reaches_existing_scenario [OF viewMappings_ab no_Owner_ab, of "Some ''bob''"] bob_passes]
  have 1: "rebuildClient scenario_settings (existing_world (Some ''bob'') view_lines_abc)
             template_client (existing_client (Some ''bob'') view_abc)
           \<and> outcome (editClient (existing_world (Some ''bob'') view_lines_abc)
               (rebuilt scenario_settings (existing_world (Some ''bob'') view_lines_abc)
                  template_client (existing_client (Some ''bob'') view_abc))) = Inr ()"
    by (simp add: scenario_abc_rebuild scenario_editClient_rebuilt)
  show ?thesis
    using drifted [THEN conjunct1, THEN mp, OF 1]
      same [THEN conjunct2, THEN conjunct1, THEN mp, OF scenario_ab_no_rebuild]
    by (simp add: scenario_syncK scenario_checkout)
qed

subsection \<open>C5: the resolved client name\<close>

text \<open>
  C5. The code at the host \<^verbatim>\<open>build-runner-1\<close> and the template \<^verbatim>\<open>T\<close>, host-qualified: the
  resolved name keeps the second hyphen, \<^verbatim>\<open>T_build_runner-1\<close>, where the claim says every
  hyphen becomes an underscore. The rest of the claim holds: a host name with one hyphen
  has it replaced (\<^verbatim>\<open>runner-1\<close> gives \<^verbatim>\<open>runner_1\<close>), the name is the template name, an
  underscore and the normalized host name, and with the policy to reuse the template the
  name is the template name.
\<close>

theorem C5_second_hyphen_kept:
  "clientName scenario_settings
     (scenario_world version_line ''build-runner-1'' scenario_template None) = ''T_build_runner-1''
   \<and> js_replace ''build-runner-1'' ''-'' ''_'' = ''build_runner-1''
   \<and> js_replace ''runner-1'' ''-'' ''_'' = ''runner_1''
   \<and> clientName (settings\<lparr>useClientTemplate := False\<rparr>) w =
       clientTemplate settings @ ''_'' @ js_replace (hostname w) ''-'' ''_''
   \<and> clientName (settings\<lparr>useClientTemplate := True\<rparr>) w = clientTemplate settings"
  by (simp add: clientName_def replace_hyphen)

subsection \<open>C6: version parsing\<close>

text \<open>
  C6, as stated, at the string \<^verbatim>\<open>2023.\<close>, whose minor group is absent: the pattern
  matches, the major is set, and \<^verbatim>\<open>isValid\<close> answers true; only the minor is unset.
\<close>

theorem C6_absent_minor_is_valid:
  "isValid (newPerforceVersion (Some ''2023.''))
   \<and> newPerforceVersion (Some ''2023.'') = \<lparr>major = Num 2023, minor = NaN\<rparr>"
  by (simp add: isValid_def newPerforceVersion_def version_match_def isDigit_def Number_def
      decimal_def)

text \<open>
  C6, amended. The constructor yields a valid version (\<^verbatim>\<open>isValid\<close>) exactly for the strings
  made of one or more digits, a dot, and zero or more digits. With the minor digits
  present both fields are set to \<^verbatim>\<open>Number\<close> of the digits written: the number written
  when it is below \<open>2^53\<close>; from \<open>2^53\<close> on the double it is rounded to, which is a
  multiple of \<open>2^(b - 53)\<close> for a number of \<open>b\<close> binary digits and at most half of that
  away from the number written; and \<^verbatim>\<open>Infinity\<close> from \<open>2^1024\<close> on.
  \<^verbatim>\<open>9007199254740993.18014398509481985\<close> yields major 9007199254740992 and minor
  18014398509481984. With the minor digits absent the version is still valid, with the
  major set and the minor unset. Every other input, the absent one too, yields the
  version with both fields unset, and the constructor is a total function: it raises
  nothing. \<^verbatim>\<open>2023.2\<close> yields major 2023 and minor 2; \<^verbatim>\<open>2023\<close>, the empty string and the
  absent string yield an invalid version.
\<close>

theorem C6_version_parsing:
  "(isValid (newPerforceVersion x) \<longleftrightarrow>
      (\<exists>d1 d2. x = Some (d1 @ ''.'' @ d2) \<and> d1 \<noteq> [] \<and> list_all isDigit d1 \<and> list_all isDigit d2))
   \<and> (e1 \<noteq> [] \<and> list_all isDigit e1 \<and> list_all isDigit e2 \<longrightarrow>
        newPerforceVersion (Some (e1 @ ''.'' @ e2)) =
          \<lparr>major = toDouble (decimal e1),
           minor = (if e2 = [] then NaN else toDouble (decimal e2))\<rparr>)
   \<and> (n < 2 ^ 53 \<longrightarrow> toDouble n = Num n)
   \<and> (2 ^ 53 \<le> n \<and> toDouble n = Num m \<longrightarrow>
        2 ^ (bit_length n - 53) dvd m
        \<and> 2 * (m - n) \<le> 2 ^ (bit_length n - 53)
        \<and> 2 * (n - m) \<le> 2 ^ (bit_length n - 53))
   \<and> (2 ^ 1024 \<le> n \<longrightarrow> toDouble n = Infinity)
   \<and> newPerforceVersion (Some ''9007199254740993.18014398509481985'') =
        \<lparr>major = Num 9007199254740992, minor = Num 18014398509481984\<rparr>
   \<and> (\<not> isValid (newPerforceVersion x) \<longrightarrow>
        newPerforceVersion x = \<lparr>major = NaN, minor = NaN\<rparr>)
   \<and> newPerforceVersion (Some ''2023.2'') = \<lparr>major = Num 2023, minor = Num 2\<rparr>
   \<and> \<not> isValid (newPerforceVersion (Some ''2023''))
   \<and> \<not> isValid (newPerforceVersion (Some []))
   \<and> \<not> isValid (newPerforceVersion None)"
proof -
  have ex: "newPerforceVersion (Some ''2023.2'') = \<lparr>major = Num 2023, minor = Num 2\<rparr>"
    by (simp add: newPerforceVersion_def version_match_def isDigit_def Number_def decimal_def)
  have big: "newPerforceVersion (Some ''9007199254740993.18014398509481985'') =
        \<lparr>major = Num 9007199254740992, minor = Num 18014398509481984\<rparr>"
    by (simp add: newPerforceVersion_def version_match_def isDigit_def Number_def decimal_def
        toDouble_examples)
  have no_dot: "\<not> isValid (newPerforceVersion (Some ''2023''))"
    by (simp add: isValid_def newPerforceVersion_def)
  have empty: "\<not> isValid (newPerforceVersion (Some []))"
    by (simp add: isValid_def newPerforceVersion_def)
  have absent: "\<not> isValid (newPerforceVersion None)"
    by (simp add: isValid_def newPerforceVersion_def)
  show ?thesis
    using isValid_newPerforceVersion [of x] newPerforceVersion_digits_dot [of e1 e2]
      newPerforceVersion_invalid [of x] toDouble_exact [of n] toDouble_nearest [of n m]
      toDouble_Infinity [of n] ex big no_dot empty absent
    by blast
qed

text \<open>
  The strings \<^verbatim>\<open>7.10\<close> and \<^verbatim>\<open>7\<close>, and the numbers 7, \<open>2^53 + 1\<close> and \<open>2^1024\<close>.
\<close>

theorem C6_version_parsing_witness:
  "isValid (newPerforceVersion (Some ''7.10''))
   \<and> newPerforceVersion (Some ''7.10'') = \<lparr>major = Num 7, minor = Num 10\<rparr>
   \<and> newPerforceVersion (Some ''7'') = \<lparr>major = NaN, minor = NaN\<rparr>
   \<and> toDouble 7 = Num 7
   \<and> toDouble 9007199254740993 = Num 9007199254740992
   \<and> 2 ^ (bit_length 9007199254740993 - 53) dvd (9007199254740992 :: nat)
   \<and> 2 * (9007199254740993 - 9007199254740992) \<le> (2 :: nat) ^ (bit_length 9007199254740993 - 53)
   \<and> toDouble (2 ^ 1024) = Infinity"
proof -
  note t = C6_version_parsing [of "Some ''7.10''" "''7''" "''10''" 7 0]
  note u = C6_version_parsing [of "Some ''7''" "''7''" "''10''" 9007199254740993 9007199254740992]
  note i = C6_version_parsing [of "Some ''7''" "''7''" "''10''" "2 ^ 1024" 0]
  have v: "\<exists>d1 d2. Some ''7.10'' = Some (d1 @ ''.'' @ d2) \<and> d1 \<noteq> [] \<and> list_all isDigit d1
             \<and> list_all isDigit d2"
    by (rule exI [of _ "''7''"], rule exI [of _ "''10''"]) (simp add: isDigit_def)
  have d: "''7'' \<noteq> [] \<and> list_all isDigit ''7'' \<and> list_all isDigit ''10''"
    by (simp add: isDigit_def)
  have n: "\<not> isValid (newPerforceVersion (Some ''7''))"
    by (simp add: isValid_def newPerforceVersion_def version_match_def isDigit_def)
  have 1: "isValid (newPerforceVersion (Some ''7.10''))"
    using t [THEN conjunct1] v by (rule iffD2)
  have small: "(7::nat) < 2 ^ 53"
    by simp
  have 4: "toDouble 7 = Num 7"
    using t [THEN conjunct2, THEN conjunct2, THEN conjunct1] small by (rule mp)
  have "newPerforceVersion (Some (''7'' @ ''.'' @ ''10'')) =
          \<lparr>major = toDouble (decimal ''7''),
           minor = (if ''10'' = [] then NaN else toDouble (decimal ''10''))\<rparr>"
    using t [THEN conjunct2, THEN conjunct1] d by (rule mp)
  then have 2: "newPerforceVersion (Some ''7.10'') = \<lparr>major = Num 7, minor = Num 10\<rparr>"
    by (simp add: decimal_def)
  have 3: "newPerforceVersion (Some ''7'') = \<lparr>major = NaN, minor = NaN\<rparr>"
    using u [THEN conjunct2, THEN conjunct2, THEN conjunct2, THEN conjunct2, THEN conjunct2,
        THEN conjunct2, THEN conjunct1] n
    by (rule mp)
  have 5: "toDouble 9007199254740993 = Num 9007199254740992"
    by (simp add: toDouble_def Let_def)
  have large: "(2::nat) ^ 53 \<le> 9007199254740993 \<and> toDouble 9007199254740993 = Num 9007199254740992"
    using 5 by simp
  have 6: "2 ^ (bit_length 9007199254740993 - 53) dvd (9007199254740992 :: nat)
        \<and> 2 * (9007199254740992 - 9007199254740993) \<le> (2 :: nat) ^ (bit_length 9007199254740993 - 53)
        \<and> 2 * (9007199254740993 - 9007199254740992) \<le> (2 :: nat) ^ (bit_length 9007199254740993 - 53)"
    using u [THEN conjunct2, THEN conjunct2, THEN conjunct2, THEN conjunct1] large by (rule mp)
  have huge: "(2::nat) ^ 1024 \<le> 2 ^ 1024"
    by (rule order_refl)
  have 7: "toDouble (2 ^ 1024) = Infinity"
    using i [THEN conjunct2, THEN conjunct2, THEN conjunct2, THEN conjunct2, THEN conjunct1] huge
    by (rule mp)
  from 1 2 3 4 5 6 7 show ?thesis
    by blast
qed

subsection \<open>C7: version comparison\<close>

text \<open>
  C7, as stated, at the valid versions parsed from \<^verbatim>\<open>2023.\<close> and \<^verbatim>\<open>2023.1\<close>: the majors
  are equal and the check answers true, while \<^verbatim>\<open>a.minor >= b.minor\<close> is false, the minor
  of \<^verbatim>\<open>a\<close> being unset.
\<close>

theorem C7_unset_minor_passes:
  "isValid (newPerforceVersion (Some ''2023.''))
   \<and> isValid (newPerforceVersion (Some ''2023.1''))
   \<and> js_eq (major (newPerforceVersion (Some ''2023.''))) (major (newPerforceVersion (Some ''2023.1'')))
   \<and> checkMinimum (newPerforceVersion (Some ''2023.'')) (newPerforceVersion (Some ''2023.1'')) = Inr True
   \<and> \<not> js_ge (minor (newPerforceVersion (Some ''2023.''))) (minor (newPerforceVersion (Some ''2023.1'')))"
  by (simp add: checkMinimum_def isValid_def newPerforceVersion_def version_match_def isDigit_def
      Number_def decimal_def)

text \<open>
  C7, amended. For all valid versions \<open>a\<close> and \<open>b\<close>: with equal majors the check is true
  iff \<^verbatim>\<open>a.minor < b.minor\<close> does not hold, which is \<^verbatim>\<open>a.minor >= b.minor\<close> when both minors
  are set, and true whenever one of the minors is unset; with \<^verbatim>\<open>a.major > b.major\<close> it is
  true whatever the minors; with \<^verbatim>\<open>a.major < b.major\<close> it is false. For every \<open>a\<close> the check
  against an invalid minimum fails with an error. When \<open>a\<close> is invalid and the minimum
  is valid, the result is true.
\<close>

theorem C7_checkMinimum:
  "(isValid a \<and> isValid b \<and> js_eq (major a) (major b) \<longrightarrow>
      checkMinimum a b = Inr (\<not> js_lt (minor a) (minor b)))
   \<and> (isValid a \<and> isValid b \<and> js_eq (major a) (major b) \<and> minor a \<noteq> NaN \<and> minor b \<noteq> NaN \<longrightarrow>
      checkMinimum a b = Inr (js_ge (minor a) (minor b)))
   \<and> (isValid a \<and> isValid b \<and> js_eq (major a) (major b) \<and> (minor a = NaN \<or> minor b = NaN) \<longrightarrow>
      checkMinimum a b = Inr True)
   \<and> (isValid a \<and> isValid b \<and> js_lt (major b) (major a) \<longrightarrow> checkMinimum a b = Inr True)
   \<and> (isValid a \<and> isValid b \<and> js_lt (major a) (major b) \<longrightarrow> checkMinimum a b = Inr False)
   \<and> (\<not> isValid b \<longrightarrow> checkMinimum a b = Inl (Error ''Arg minimum is not a valid version''))
   \<and> (\<not> isValid a \<and> isValid b \<longrightarrow> checkMinimum a b = Inr True)"
proof -
  obtain a1 a2 where a: "major a = a1" "minor a = a2" by simp
  obtain b1 b2 where b: "major b = b1" "minor b = b2" by simp
  show ?thesis
    unfolding checkMinimum_def isValid_def a b
    by (cases a1; cases b1; cases a2; cases b2) auto
qed

text \<open>
  One pair of versions for each case.
\<close>

theorem C7_checkMinimum_witness:
  "checkMinimum \<lparr>major = Num 2023, minor = Num 2\<rparr> \<lparr>major = Num 2023, minor = Num 1\<rparr> = Inr True
   \<and> checkMinimum \<lparr>major = Num 2023, minor = Num 1\<rparr> \<lparr>major = Num 2023, minor = Num 2\<rparr> = Inr False
   \<and> checkMinimum \<lparr>major = Num 2023, minor = NaN\<rparr> \<lparr>major = Num 2023, minor = Num 2\<rparr> = Inr True
   \<and> checkMinimum \<lparr>major = Num 2024, minor = Num 1\<rparr> \<lparr>major = Num 2023, minor = Num 2\<rparr> = Inr True
   \<and> checkMinimum \<lparr>major = Num 2022, minor = Num 3\<rparr> \<lparr>major = Num 2023, minor = Num 2\<rparr> = Inr False
   \<and> checkMinimum \<lparr>major = Num 2022, minor = Num 3\<rparr> \<lparr>major = NaN, minor = NaN\<rparr>
        = Inl (Error ''Arg minimum is not a valid version'')
   \<and> checkMinimum \<lparr>major = NaN, minor = NaN\<rparr> \<lparr>major = Num 2023, minor = Num 2\<rparr> = Inr True"
  using
    C7_checkMinimum [of "\<lparr>major = Num 2023, minor = Num 2\<rparr>" "\<lparr>major = Num 2023, minor = Num 1\<rparr>"]
    C7_checkMinimum [of "\<lparr>major = Num 2023, minor = Num 1\<rparr>" "\<lparr>major = Num 2023, minor = Num 2\<rparr>"]
    C7_checkMinimum [of "\<lparr>major = Num 2023, minor = NaN\<rparr>" "\<lparr>major = Num 2023, minor = Num 2\<rparr>"]
    C7_checkMinimum [of "\<lparr>major = Num 2024, minor = Num 1\<rparr>" "\<lparr>major = Num 2023, minor = Num 2\<rparr>"]
    C7_checkMinimum [of "\<lparr>major = Num 2022, minor = Num 3\<rparr>" "\<lparr>major = Num 2023, minor = Num 2\<rparr>"]
    C7_checkMinimum [of "\<lparr>major = Num 2022, minor = Num 3\<rparr>" "\<lparr>major = NaN, minor = NaN\<rparr>"]
    C7_checkMinimum [of "\<lparr>major = NaN, minor = NaN\<rparr>" "\<lparr>major = Num 2023, minor = Num 2\<rparr>"]
  by (simp add: isValid_def)

subsection \<open>C8: view lines\<close>

text \<open>
  C8, as stated, at three view lines. The first has two spaces between its two paths
  and the second a tab: each consists of exactly two tokens separated by whitespace,
  and fetching raises the parse error. The third starts with a space and has one token:
  fetching raises nothing and yields a mapping with an empty depot path.
\<close>

theorem C8_whitespace_is_not_the_separator:
  "whitespace_tokens ''//depot/a  //T/a'' = [''//depot/a'', ''//T/a'']
   \<and> outcome (fetchClient
        (scenario_world version_line ''runner-1'' [(''View0'', ''//depot/a  //T/a'')] None) ''T'')
       = Inl (Error (''Invalid client view '' @ [CHR 0x27] @ ''//depot/a  //T/a'' @ [CHR 0x27]))
   \<and> whitespace_tokens (''//depot/a'' @ [CHR 0x09] @ ''//T/a'') = [''//depot/a'', ''//T/a'']
   \<and> outcome (fetchClient
        (scenario_world version_line ''runner-1''
           [(''View0'', ''//depot/a'' @ [CHR 0x09] @ ''//T/a'')] None) ''T'')
       = Inl (Error (''Invalid client view '' @ [CHR 0x27] @ ''//depot/a'' @ [CHR 0x09] @ ''//T/a''
                     @ [CHR 0x27]))
   \<and> whitespace_tokens '' //T/a'' = [''//T/a'']
   \<and> outcome (fetchClient
        (scenario_world version_line ''runner-1'' [(''View0'', '' //T/a'')] None) ''T'')
       = Inr \<lparr>host = None, name = None, description = None, options = None,
              submitOptions = None, lineEnd = None, owner = None, root = None,
              view = [\<lparr>depot = [], client = ''//T/a''\<rparr>]\<rparr>"
  by (simp add: whitespace_tokens_def isSpace_def fetchClient_def outcome_bind outcome_execP4
      startsWith_def)

text \<open>
  C8, amended. Fetching a workspace definition (the command succeeded and its output
  parsed) raises the error \<^verbatim>\<open>Invalid client view\<close>, naming the first such line, exactly
  when some view line is not cut by \<^verbatim>\<open>split(' ')\<close> into exactly two parts, that is, when
  it does not contain exactly one space character (a tab or a run of spaces is not one
  separator, and a part may be empty); otherwise every view line yields one mapping of
  its two parts, and the line \<^verbatim>\<open>"<depotPath> <clientPath>"\<close> with no other space yields
  those two components. The error is not recovered: when the fetch of the template or
  of the existing definition fails, \<^verbatim>\<open>getSource\<close> fails with that error.
\<close>

theorem C8_view_lines:
  "(exitCode (exec w [''-Mj'', ''-Ztag'', ''client'', ''-o'', nm] []) = 0
    \<and> JSON_parse w (stdout (exec w [''-Mj'', ''-Ztag'', ''client'', ''-o'', nm] [])) = Some obj \<longrightarrow>
      outcome (fetchClient w nm) =
        (case find (\<lambda>v. \<not> oneSpace v) (viewLines obj) of
           Some v \<Rightarrow> Inl (Error (''Invalid client view '' @ [CHR 0x27] @ v @ [CHR 0x27]))
         | None \<Rightarrow>
             Inr \<lparr>host = map_of obj ''Host'',
                  name = map_of obj ''Client'',
                  description = map_of obj ''Description'',
                  options = map_of obj ''Options'',
                  submitOptions = map_of obj ''SubmitOptions'',
                  lineEnd = map_of obj ''LineEnd'',
                  owner = map_of obj ''Owner'',
                  root = map_of obj ''Root'',
                  view = map (\<lambda>v. \<lparr>depot = js_split CHR '' '' v ! 0,
                                     client = js_split CHR '' '' v ! 1\<rparr>) (viewLines obj)\<rparr>))
   \<and> (oneSpace line \<longleftrightarrow> length (js_split CHR '' '' line) = 2)
   \<and> (oneSpace line \<longleftrightarrow>
        (\<exists>d c. line = d @ '' '' @ c \<and> CHR '' '' \<notin> set d \<and> CHR '' '' \<notin> set c))
   \<and> (CHR '' '' \<notin> set depotPath \<and> CHR '' '' \<notin> set clientPath \<longrightarrow>
        js_split CHR '' '' (depotPath @ '' '' @ clientPath) = [depotPath, clientPath])
   \<and> (\<not> isl (outcome (getPerforceCommandManager settings w))
       \<and> outcome (verifyLogin w) = Inr ()
       \<and> outcome (fetchClient w (clientTemplate settings)) = Inl e \<longrightarrow>
        outcome (getSource settings w) = Inl e)
   \<and> (\<not> isl (outcome (getPerforceCommandManager settings w))
       \<and> outcome (verifyLogin w) = Inr ()
       \<and> outcome (fetchClient w (clientTemplate settings)) = Inr template
       \<and> outcome (clientExists w (clientName settings w)) = Inr True
       \<and> outcome (fetchClient w (clientName settings w)) = Inl e \<longrightarrow>
        outcome (getSource settings w) = Inl e)"
proof -
  have two: "oneSpace line \<longleftrightarrow> length (js_split CHR '' '' line) = 2"
    by (simp add: length_js_split oneSpace_def)
  show ?thesis
    using outcome_fetchClient [of w nm obj] two oneSpace_iff [of line]
      js_split_two [of depotPath clientPath]
      getSource_template_failure [of settings w e]
      getSource_existing_failure [of settings w template e]
    by blast
qed

text \<open>
  The template of the scenarios is fetched with its two mappings; a template whose view line
  has no space makes the whole run fail with the parse error.
\<close>

theorem C8_view_lines_witness:
  "outcome (fetchClient (scenario_world version_line ''runner-1'' scenario_template None) ''T'')
     = Inr template_client
   \<and> oneSpace ''//depot/a //T/a''
   \<and> js_split CHR '' '' ''//depot/a //T/a'' = [''//depot/a'', ''//T/a'']
   \<and> outcome (getSource scenario_settings
        (scenario_world version_line ''runner-1'' [(''View0'', ''//depot/a'')] None))
       = Inl (Error (''Invalid client view '' @ [CHR 0x27] @ ''//depot/a'' @ [CHR 0x27]))"
proof -
  let ?w = "scenario_world version_line ''runner-1'' scenario_template None"
  let ?bad = "scenario_world version_line ''runner-1'' [(''View0'', ''//depot/a'')] None"
  let ?e = "Error (''Invalid client view '' @ [CHR 0x27] @ ''//depot/a'' @ [CHR 0x27])"
  note good = C8_view_lines [of ?w "''T''" scenario_template "''//depot/a //T/a''"
      "''//depot/a''" "''//T/a''" scenario_settings ?e template_client]
  note bad = C8_view_lines [of ?bad "''T''" "[(''View0'', ''//depot/a'')]" "''//depot/a''"
      "''//depot/a''" "''//T/a''" scenario_settings ?e template_client]
  have 1: "outcome (fetchClient ?w ''T'') = Inr template_client"
    using good [THEN conjunct1]
    by (simp add: scenario_template_def template_client_def viewLines_def startsWith_def
        oneSpace_def)
  have 2: "oneSpace ''//depot/a //T/a''"
    by (simp add: oneSpace_def)
  have "CHR '' '' \<notin> set ''//depot/a'' \<and> CHR '' '' \<notin> set ''//T/a''"
    by simp
  with good [THEN conjunct2, THEN conjunct2, THEN conjunct2, THEN conjunct1]
  have "js_split CHR '' '' (''//depot/a'' @ '' '' @ ''//T/a'') = [''//depot/a'', ''//T/a'']"
    by (rule mp)
  then have 3: "js_split CHR '' '' ''//depot/a //T/a'' = [''//depot/a'', ''//T/a'']"
    by simp
  have "outcome (fetchClient ?bad ''T'') = Inl ?e"
    using bad [THEN conjunct1]
    by (simp add: viewLines_def startsWith_def oneSpace_def)
  then have "\<not> isl (outcome (getPerforceCommandManager scenario_settings ?bad))
       \<and> outcome (verifyLogin ?bad) = Inr ()
       \<and> outcome (fetchClient ?bad (clientTemplate scenario_settings)) = Inl ?e"
    by (simp add: scenario_version)
  with bad [THEN conjunct2, THEN conjunct2, THEN conjunct2, THEN conjunct2, THEN conjunct1]
  have 4: "outcome (getSource scenario_settings ?bad) = Inl ?e"
    by (rule mp)
  from 1 2 3 4 show ?thesis
    by simp
qed

subsection \<open>C9: what a rebuild writes back\<close>

text \<open>
  C9, as stated, at two existing definitions with the extra mapping of \<^verbatim>\<open>//depot/c\<close>.
  The first has no owner: it passes the owner check, and the rebuild writes the owner
  line \<^verbatim>\<open>Owner:\<close>, a tab and the word \<^verbatim>\<open>undefined\<close>, which is not the owner fetched. The
  second has no description: the rebuild fails with a \<^verbatim>\<open>TypeError\<close> while it renders
  the description, and the run ends after the queries with nothing written back.
\<close>

theorem C9_absent_fields_not_written_back:
  "outcome (fetchClient (existing_world None view_lines_abc) ''T_runner_1'')
     = Inr (existing_client None view_abc)
   \<and> owner (existing_client None view_abc) = None
   \<and> trace (getSource scenario_settings (existing_world None view_lines_abc)) =
     [Exec [''-V''] [],
      SetEnvironmentVariable ''P4PORT'' ''ssl:perforce:1666'',
      SetEnvironmentVariable ''P4USER'' ''bob'',
      Exec [''login'', ''-s''] [],
      Exec [''-Mj'', ''-Ztag'', ''client'', ''-o'', ''T''] [],
      Exec [''clients'', ''-e'', ''T_runner_1''] [],
      Exec [''-Mj'', ''-Ztag'', ''client'', ''-o'', ''T_runner_1''] [],
      Exec [''client'', ''-i'']
        (join [CHR 0x0A]
           [''Client:'' @ [CHR 0x09] @ ''T_runner_1'',
            ''Owner:'' @ [CHR 0x09] @ ''undefined'',
            ''Host:'' @ [CHR 0x09] @ ''runner-1'',
            ''Description:'',
            [CHR 0x09] @ ''Build template instance for runner-1'',
            ''Root:'' @ [CHR 0x09] @ ''/work/repo'',
            ''Options:'' @ [CHR 0x09] @ ''noallwrite clobber'',
            ''SubmitOptions:'' @ [CHR 0x09] @ ''submitunchanged'',
            ''LineEnd:'' @ [CHR 0x09] @ ''local'',
            ''View:'',
            [CHR 0x09] @ ''//depot/a //T_runner_1/a'',
            [CHR 0x09] @ ''//depot/b //T_runner_1/b'']),
      SetEnvironmentVariable ''P4CLIENT'' ''T_runner_1'',
      Exec [''sync'', ''-k'', ''//T_runner_1/...#none''] [],
      RmRF ''/work/repo'',
      MkdirP ''/work/repo'',
      Exec [''clean'', ''-a'', ''-d'', ''-e'', ''//T_runner_1/...''] [],
      Exec [''sync'', ''//T_runner_1/...@42''] [],
      SetOutput ''commit'' ''@42'']
   \<and> outcome (fetchClient undescribed_world ''T_runner_1'') = Inr undescribed_client
   \<and> description undescribed_client = None
   \<and> rebuildClient scenario_settings undescribed_world template_client undescribed_client
   \<and> trace (getSource scenario_settings undescribed_world) =
     [Exec [''-V''] [],
      SetEnvironmentVariable ''P4PORT'' ''ssl:perforce:1666'',
      SetEnvironmentVariable ''P4USER'' ''bob'',
      Exec [''login'', ''-s''] [],
      Exec [''-Mj'', ''-Ztag'', ''client'', ''-o'', ''T''] [],
      Exec [''clients'', ''-e'', ''T_runner_1''] [],
      Exec [''-Mj'', ''-Ztag'', ''client'', ''-o'', ''T_runner_1''] []]
   \<and> outcome (getSource scenario_settings undescribed_world) = Inl TypeError"
proof -
  have 1: "outcome (fetchClient (existing_world None view_lines_abc) ''T_runner_1'')
     = Inr (existing_client None view_abc)"
    by (rule scenario_fetch_existing [OF viewMappings_abc no_Owner_abc])
  have 2: "owner (existing_client None view_abc) = None"
    by (simp add: existing_client_def)
  have w: "trace (editClient (existing_world None view_lines_abc)
      (rebuilt scenario_settings (existing_world None view_lines_abc) template_client
         (existing_client None view_abc))) =
     [Exec [''client'', ''-i'']
        (join [CHR 0x0A]
           [''Client:'' @ [CHR 0x09] @ ''T_runner_1'',
            ''Owner:'' @ [CHR 0x09] @ ''undefined'',
            ''Host:'' @ [CHR 0x09] @ ''runner-1'',
            ''Description:'',
            [CHR 0x09] @ ''Build template instance for runner-1'',
            ''Root:'' @ [CHR 0x09] @ ''/work/repo'',
            ''Options:'' @ [CHR 0x09] @ ''noallwrite clobber'',
            ''SubmitOptions:'' @ [CHR 0x09] @ ''submitunchanged'',
            ''LineEnd:'' @ [CHR 0x09] @ ''local'',
            ''View:'',
            [CHR 0x09] @ ''//depot/a //T_runner_1/a'',
            [CHR 0x09] @ ''//depot/b //T_runner_1/b''])]"
    by (simp add: trace_editClient clientSpec_def rebuilt_def existing_client_def
        scenario_templateView view_ab_def str_def)
  have 3: "trace (getSource scenario_settings (existing_world None view_lines_abc)) =
     [Exec [''-V''] [],
      SetEnvironmentVariable ''P4PORT'' ''ssl:perforce:1666'',
      SetEnvironmentVariable ''P4USER'' ''bob'',
      Exec [''login'', ''-s''] [],
      Exec [''-Mj'', ''-Ztag'', ''client'', ''-o'', ''T''] [],
      Exec [''clients'', ''-e'', ''T_runner_1''] [],
      Exec [''-Mj'', ''-Ztag'', ''client'', ''-o'', ''T_runner_1''] [],
      Exec [''client'', ''-i'']
        (join [CHR 0x0A]
           [''Client:'' @ [CHR 0x09] @ ''T_runner_1'',
            ''Owner:'' @ [CHR 0x09] @ ''undefined'',
            ''Host:'' @ [CHR 0x09] @ ''runner-1'',
            ''Description:'',
            [CHR 0x09] @ ''Build template instance for runner-1'',
            ''Root:'' @ [CHR 0x09] @ ''/work/repo'',
            ''Options:'' @ [CHR 0x09] @ ''noallwrite clobber'',
            ''SubmitOptions:'' @ [CHR 0x09] @ ''submitunchanged'',
            ''LineEnd:'' @ [CHR 0x09] @ ''local'',
            ''View:'',
            [CHR 0x09] @ ''//depot/a //T_runner_1/a'',
            [CHR 0x09] @ ''//depot/b //T_runner_1/b'']),
      SetEnvironmentVariable ''P4CLIENT'' ''T_runner_1'',
      Exec [''sync'', ''-k'', ''//T_runner_1/...#none''] [],
      RmRF ''/work/repo'',
      MkdirP ''/work/repo'',
      Exec [''clean'', ''-a'', ''-d'', ''-e'', ''//T_runner_1/...''] [],
      Exec [''sync'', ''//T_runner_1/...@42''] [],
      SetOutput ''commit'' ''@42'']"
    unfolding getSource_checked
      [OF reaches_existing_scenario [OF viewMappings_abc no_Owner_abc, of None] unowned_passes] w
    by (simp add: scenario_abc_rebuild scenario_editClient_rebuilt trace_finish scenario_syncK
        scenario_checkout)
  have 5: "description undescribed_client = None"
    by (simp add: undescribed_client_def)
  have 7: "trace (getSource scenario_settings undescribed_world) =
     [Exec [''-V''] [],
      SetEnvironmentVariable ''P4PORT'' ''ssl:perforce:1666'',
      SetEnvironmentVariable ''P4USER'' ''bob'',
      Exec [''login'', ''-s''] [],
      Exec [''-Mj'', ''-Ztag'', ''client'', ''-o'', ''T''] [],
      Exec [''clients'', ''-e'', ''T_runner_1''] [],
      Exec [''-Mj'', ''-Ztag'', ''client'', ''-o'', ''T_runner_1''] []]"
    unfolding getSource_checked [OF undescribed_reaches undescribed_passes]
    by (simp add: undescribed_rebuild undescribed_editClient undescribed_simps rebuilt_def)
  have 8: "outcome (getSource scenario_settings undescribed_world) = Inl TypeError"
    unfolding getSource_existing(2) [OF undescribed_reaches]
    using undescribed_passes undescribed_rebuild
    by (simp add: checkExisting_def outcome_bind undescribed_editClient)
  from 1 2 3 undescribed_fetch 5 undescribed_rebuild 7 8 show ?thesis
    by simp
qed

text \<open>
  C9, amended. When drift triggers a rebuild of an existing definition that has a name,
  an owner, a description, options, submit options and a line end, the definition
  written back is the fetched one with its host, root and view replaced: the write is
  the first action after the queries, and the spec it pipes carries the name, owner,
  description, options, submit options and line end of the fetched definition, the
  current host, the root path of the settings and the view built from the template.
\<close>

theorem C9_rebuild_frame:
  assumes "reaches_existing settings w template existingClient"
    "\<not> ownerMismatch existingClient (authToken settings)"
    "rebuildClient settings w template existingClient"
    "name existingClient = Some nm"
    "owner existingClient = Some ow"
    "description existingClient = Some d"
    "options existingClient = Some opts"
    "submitOptions existingClient = Some so"
    "lineEnd existingClient = Some le"
  shows "(\<exists>rest. trace (getSource settings w) =
            preflight settings w @ queries settings w
            @ Exec [''client'', ''-i'']
                (join [CHR 0x0A]
                   ([''Client:'' @ [CHR 0x09] @ nm,
                     ''Owner:'' @ [CHR 0x09] @ ow,
                     ''Host:'' @ [CHR 0x09] @ hostname w,
                     ''Description:'']
                    @ map (\<lambda>line. CHR 0x09 # line) (js_split CHR 0x0A d)
                    @ [''Root:'' @ [CHR 0x09] @ repositoryPath settings,
                       ''Options:'' @ [CHR 0x09] @ opts,
                       ''SubmitOptions:'' @ [CHR 0x09] @ so,
                       ''LineEnd:'' @ [CHR 0x09] @ le,
                       ''View:'']
                    @ map (\<lambda>mapping. CHR 0x09 # depot mapping @ '' '' @ client mapping)
                        (templateView settings w template)))
              # rest)
       \<and> rebuilt settings w template existingClient =
           \<lparr>host = Some (hostname w),
            name = name existingClient,
            description = description existingClient,
            options = options existingClient,
            submitOptions = submitOptions existingClient,
            lineEnd = lineEnd existingClient,
            owner = owner existingClient,
            root = Some (repositoryPath settings),
            view = templateView settings w template\<rparr>"
proof
  have spec: "clientSpec (rebuilt settings w template existingClient) =
     Inr ([''Client:'' @ [CHR 0x09] @ nm,
           ''Owner:'' @ [CHR 0x09] @ ow,
           ''Host:'' @ [CHR 0x09] @ hostname w,
           ''Description:'']
          @ map (\<lambda>line. CHR 0x09 # line) (js_split CHR 0x0A d)
          @ [''Root:'' @ [CHR 0x09] @ repositoryPath settings,
             ''Options:'' @ [CHR 0x09] @ opts,
             ''SubmitOptions:'' @ [CHR 0x09] @ so,
             ''LineEnd:'' @ [CHR 0x09] @ le,
             ''View:'']
          @ map (\<lambda>mapping. CHR 0x09 # depot mapping @ '' '' @ client mapping)
              (templateView settings w template))"
    using assms(4-9) by (simp add: clientSpec_def rebuilt_def str_def)
  show "\<exists>rest. trace (getSource settings w) =
            preflight settings w @ queries settings w
            @ Exec [''client'', ''-i'']
                (join [CHR 0x0A]
                   ([''Client:'' @ [CHR 0x09] @ nm,
                     ''Owner:'' @ [CHR 0x09] @ ow,
                     ''Host:'' @ [CHR 0x09] @ hostname w,
                     ''Description:'']
                    @ map (\<lambda>line. CHR 0x09 # line) (js_split CHR 0x0A d)
                    @ [''Root:'' @ [CHR 0x09] @ repositoryPath settings,
                       ''Options:'' @ [CHR 0x09] @ opts,
                       ''SubmitOptions:'' @ [CHR 0x09] @ so,
                       ''LineEnd:'' @ [CHR 0x09] @ le,
                       ''View:'']
                    @ map (\<lambda>mapping. CHR 0x09 # depot mapping @ '' '' @ client mapping)
                        (templateView settings w template)))
              # rest"
    unfolding getSource_checked [OF assms(1,2)] trace_editClient spec
    using assms(3) by simp
  show "rebuilt settings w template existingClient =
           \<lparr>host = Some (hostname w),
            name = name existingClient,
            description = description existingClient,
            options = options existingClient,
            submitOptions = submitOptions existingClient,
            lineEnd = lineEnd existingClient,
            owner = owner existingClient,
            root = Some (repositoryPath settings),
            view = templateView settings w template\<rparr>"
    by (simp add: rebuilt_def)
qed

text \<open>
  The existing client of \<^verbatim>\<open>bob\<close> with the extra mapping of \<^verbatim>\<open>//depot/c\<close>: the spec written
  keeps its name, owner, description, options, submit options and line end.
\<close>

theorem C9_rebuild_frame_witness:
  "(\<exists>rest. trace (getSource scenario_settings (existing_world (Some ''bob'') view_lines_abc)) =
     [Exec [''-V''] [],
      SetEnvironmentVariable ''P4PORT'' ''ssl:perforce:1666'',
      SetEnvironmentVariable ''P4USER'' ''bob'',
      Exec [''login'', ''-s''] [],
      Exec [''-Mj'', ''-Ztag'', ''client'', ''-o'', ''T''] [],
      Exec [''clients'', ''-e'', ''T_runner_1''] [],
      Exec [''-Mj'', ''-Ztag'', ''client'', ''-o'', ''T_runner_1''] [],
      Exec [''client'', ''-i'']
        (join [CHR 0x0A]
           [''Client:'' @ [CHR 0x09] @ ''T_runner_1'',
            ''Owner:'' @ [CHR 0x09] @ ''bob'',
            ''Host:'' @ [CHR 0x09] @ ''runner-1'',
            ''Description:'',
            [CHR 0x09] @ ''Build template instance for runner-1'',
            ''Root:'' @ [CHR 0x09] @ ''/work/repo'',
            ''Options:'' @ [CHR 0x09] @ ''noallwrite clobber'',
            ''SubmitOptions:'' @ [CHR 0x09] @ ''submitunchanged'',
            ''LineEnd:'' @ [CHR 0x09] @ ''local'',
            ''View:'',
            [CHR 0x09] @ ''//depot/a //T_runner_1/a'',
            [CHR 0x09] @ ''//depot/b //T_runner_1/b''])]
     @ rest)
   \<and> rebuilt scenario_settings (existing_world (Some ''bob'') view_lines_abc) template_client
       (existing_client (Some ''bob'') view_abc) =
     \<lparr>host = Some ''runner-1'',
      name = Some ''T_runner_1'',
      description = Some ''Build template instance for runner-1'',
      options = Some ''noallwrite clobber'',
      submitOptions = Some ''submitunchanged'',
      lineEnd = Some ''local'',
      owner = Some ''bob'',
      root = Some ''/work/repo'',
      view = view_ab\<rparr>"
proof -
  have present:
    "name (existing_client (Some ''bob'') view_abc) = Some ''T_runner_1''"
    "owner (existing_client (Some ''bob'') view_abc) = Some ''bob''"
    "description (existing_client (Some ''bob'') view_abc)
       = Some ''Build template instance for runner-1''"
    "options (existing_client (Some ''bob'') view_abc) = Some ''noallwrite clobber''"
    "submitOptions (existing_client (Some ''bob'') view_abc) = Some ''submitunchanged''"
    "lineEnd (existing_client (Some ''bob'') view_abc) = Some ''local''"
    by (simp_all add: existing_client_def)
  from C9_rebuild_frame
    [OF reaches_existing_scenario [OF viewMappings_abc no_Owner_abc, of "Some ''bob''"]
      bob_passes scenario_abc_rebuild present]
  show ?thesis
    by (simp add: scenario_templateView view_ab_def existing_client_def)
qed

subsection \<open>C10: the revision marker\<close>

text \<open>
  C10. For every run of \<^verbatim>\<open>getSource\<close> that completes, the last two actions are the sync
  request \<^verbatim>\<open>"//" + clientName + "/..." + ref\<close> and the output \<^verbatim>\<open>commit\<close> set to the ref of
  the settings as it stands; before them no output is set and no command is run but
  the preparation, the queries, the write of a definition, the purge and the restore,
  so nothing resolves the ref.
\<close>

theorem C10_revision_marker:
  assumes "outcome (getSource settings w) = Inr ()"
  shows "\<exists>tr. trace (getSource settings w) =
           tr @ [Exec [''sync'', ''//'' @ clientName settings w @ ''/...'' @ ref settings] [],
                 SetOutput ''commit'' (ref settings)]
         \<and> (\<forall>a\<in>set tr. preSyncAction settings w a)"
proof -
  from assms obtain needSyncNone where
    f: "outcome (finish settings w needSyncNone) = Inr ()" and
    t: "trace (getSource settings w) = trace (reconcile settings w) @ trace (finish settings w needSyncNone)"
    unfolding getSource_eq by (rule outcome_bind_Inr)
  from f have k: "needSyncNone \<longrightarrow> outcome (syncK w (''//'' @ clientName settings w @ ''/...#none'')) = Inr ()"
    and c: "outcome (revert w (''//'' @ clientName settings w @ ''/...'')) = Inr ()"
      "outcome (sync w (''//'' @ clientName settings w @ ''/...'' @ ref settings)) = Inr ()"
    by (simp_all add: outcome_finish outcome_checkout)
  define tr where "tr = trace (reconcile settings w)
     @ SetEnvironmentVariable ''P4CLIENT'' (clientName settings w)
     # (if needSyncNone
        then [Exec [''sync'', ''-k'', ''//'' @ clientName settings w @ ''/...#none''] [],
              RmRF (repositoryPath settings), MkdirP (repositoryPath settings)]
        else [])
     @ [Exec [''clean'', ''-a'', ''-d'', ''-e'', ''//'' @ clientName settings w @ ''/...''] []]"
  have "trace (getSource settings w) =
           tr @ [Exec [''sync'', ''//'' @ clientName settings w @ ''/...'' @ ref settings] [],
                 SetOutput ''commit'' (ref settings)]"
    using k c by (simp add: t tr_def trace_finish trace_checkout)
  moreover have "\<forall>a\<in>set tr. preSyncAction settings w a"
    using preSyncAction_reconcile [of settings w]
    by (auto simp: tr_def preSyncAction_def)
  ultimately show ?thesis by blast
qed

text \<open>
  The run that finds the existing client of \<^verbatim>\<open>bob\<close> with nothing to rebuild.
\<close>

theorem C10_revision_marker_witness:
  "\<exists>tr. trace (getSource scenario_settings (existing_world (Some ''bob'') view_lines_ab)) =
          tr @ [Exec [''sync'', ''//T_runner_1/...@42''] [], SetOutput ''commit'' ''@42'']
        \<and> (\<forall>a\<in>set tr. preSyncAction scenario_settings
                          (existing_world (Some ''bob'') view_lines_ab) a)"
proof -
  have "outcome (getSource scenario_settings (existing_world (Some ''bob'') view_lines_ab)) = Inr ()"
    by (rule scenario_outcome [OF viewMappings_ab no_Owner_ab])
      (simp add: existing_client_def ownerMismatch_def)
  from C10_revision_marker [OF this] show ?thesis
    by simp
qed

end
